theory Spec2Isabelle
  imports Complex_Main "HOL-Library.Word"
begin

unbundle bit_operations_syntax

section \<open>Strings and the path functions of the standard library\<close>

text \<open>
  A Python string is a list of Unicode code points; \<open>str s\<close> is the string of an ASCII
  literal. The platform is POSIX: the path separator is \<open>/\<close> (code point 47), the
  extension separator is the dot (code point 46), and there is no alternative separator.
\<close>

type_synonym pystr = "nat list"

definition str :: "string \<Rightarrow> pystr" where
  "str s = map of_char s"

text \<open>
  \<open>s.lower()\<close> lowers the string position by position. A code point below 128 is lowered
  as ASCII: the letters \<open>A\<close> .. \<open>Z\<close> (65 .. 90) move up by 32, every other one stays. The
  lower-casing of a code point from 128 on comes from the Unicode database of the
  interpreter and may depend on the position (the final sigma) and give several code
  points; it is the parameter \<open>U\<close>, applied to the string and the position.
\<close>

definition lower :: "(pystr \<Rightarrow> nat \<Rightarrow> pystr) \<Rightarrow> pystr \<Rightarrow> pystr" where
  "lower U s =
     concat (map (\<lambda>i. let c = s ! i
                       in if 65 \<le> c \<and> c \<le> 90 then [c + 32]
                          else if c < 128 then [c]
                          else U s i)
                 [0..<length s])"

text \<open>\<open>p.rfind(c)\<close>: the highest index at which \<open>c\<close> occurs in \<open>p\<close>, or \<open>-1\<close>.\<close>

fun rfind :: "'a list \<Rightarrow> 'a \<Rightarrow> int" where
  "rfind [] c = - 1"
| "rfind (x # xs) c =
     (let r = rfind xs c in if 0 \<le> r then r + 1 else if x = c then 0 else - 1)"

text \<open>
  The loop of \<open>genericpath._splitext\<close> that skips the leading dots of the last path
  component: it answers \<open>True\<close> as soon as a character other than the dot is met before
  \<open>dotIndex\<close> (the function then returns the split), and \<open>False\<close> when the loop runs out.
\<close>

function skip_leading_dots :: "pystr \<Rightarrow> nat \<Rightarrow> nat \<Rightarrow> bool" where
  "skip_leading_dots p filenameIndex dotIndex =
     (if filenameIndex < dotIndex
      then (if take 1 (drop filenameIndex p) \<noteq> [46] then True
            else skip_leading_dots p (filenameIndex + 1) dotIndex)
      else False)"
  by pat_completeness auto
termination
  by (relation "measure (\<lambda>(p, i, d). d - i)") auto

declare skip_leading_dots.simps [simp del]

text \<open>\<open>os.path.splitext\<close> (posixpath): \<open>(root, ext)\<close>, where \<open>ext\<close> is empty or begins with a dot.\<close>

definition splitext :: "pystr \<Rightarrow> pystr \<times> pystr" where
  "splitext p =
     (let sepIndex = rfind p 47;
          dotIndex = rfind p 46
      in if dotIndex > sepIndex \<and> skip_leading_dots p (nat (sepIndex + 1)) (nat dotIndex)
         then (take (nat dotIndex) p, drop (nat dotIndex) p)
         else (p, []))"

text \<open>\<open>os.path.join(a, b)\<close> for two components (posixpath).\<close>

definition path_join :: "pystr \<Rightarrow> pystr \<Rightarrow> pystr" where
  "path_join a b =
     (if b \<noteq> [] \<and> hd b = 47 then b
      else if a = [] \<or> last a = 47 then a @ b
      else a @ [47] @ b)"

text \<open>\<open>str(n)\<close> for an integer, as the f-strings of the source format it.\<close>

fun str_nat :: "nat \<Rightarrow> pystr" where
  "str_nat n =
     (if n < 10 then [48 + n]
      else str_nat (n div 10) @ [48 + n mod 10])"

declare str_nat.simps [simp del]

definition str_int :: "int \<Rightarrow> pystr" where
  "str_int i = (if i < 0 then str ''-'' @ str_nat (nat (- i)) else str_nat (nat i))"

section \<open>Exceptions\<close>

text \<open>
  The exceptions of the model are the ones derived from \<open>Exception\<close>, which is what
  \<open>except Exception\<close> catches. The ones the source raises itself are
  \<open>HTTPException(status_code, detail)\<close>; the others come from the libraries and the
  interpreter and are kept by their class name. An exception outside \<open>Exception\<close>
  (\<open>SystemExit\<close>, \<open>KeyboardInterrupt\<close>) has no value here: a call that ends with one, or
  that does not return, is outside the model.
\<close>

datatype exn = HTTPException nat pystr | PyException string

section \<open>Classifier and validator\<close>

definition MAX_FILE_SIZE :: int where
  "MAX_FILE_SIZE = 100 * 1024 * 1024"

definition SUPPORTED_VIDEO_TYPES :: "pystr set" where
  "SUPPORTED_VIDEO_TYPES = {str ''.mp4'', str ''.mov'', str ''.avi'', str ''.mkv'', str ''.webm''}"

definition SUPPORTED_AUDIO_TYPES :: "pystr set" where
  "SUPPORTED_AUDIO_TYPES = {str ''.mp3'', str ''.wav'', str ''.aac'', str ''.m4a'', str ''.ogg''}"

definition SUPPORTED_IMAGE_TYPES :: "pystr set" where
  "SUPPORTED_IMAGE_TYPES = {str ''.jpg'', str ''.jpeg'', str ''.png'', str ''.gif'', str ''.webp''}"

text \<open>
  The two rejections of the source, under the names the specification gives them:
  both are \<open>HTTPException\<close>s with status 400, told apart by their detail.
\<close>

definition UnsupportedType :: "pystr \<Rightarrow> exn" where
  "UnsupportedType ext = HTTPException 400 (str ''Unsupported file type: '' @ ext)"

definition TooLarge :: exn where
  "TooLarge =
     HTTPException 400
       (str ''File too large. Maximum size is '' @ str_int (MAX_FILE_SIZE div (1024 * 1024))
        @ str ''MB'')"

text \<open>The kind returned is one of the three literals \<open>video\<close>, \<open>audio\<close>, \<open>image\<close>.\<close>

definition get_file_type :: "(pystr \<Rightarrow> nat \<Rightarrow> pystr) \<Rightarrow> pystr \<Rightarrow> exn + string" where
  "get_file_type U filename =
     (let ext = lower U (snd (splitext filename))
      in if ext \<in> SUPPORTED_VIDEO_TYPES then Inr ''video''
         else if ext \<in> SUPPORTED_AUDIO_TYPES then Inr ''audio''
         else if ext \<in> SUPPORTED_IMAGE_TYPES then Inr ''image''
         else Inl (UnsupportedType ext))"

text \<open>
  An \<open>UploadFile\<close>: the declared filename (\<open>file.filename\<close>), the declared size
  (\<open>file.size\<close>) and the byte stream (\<open>file.file\<close>); a byte is a \<open>char\<close>. The form
  parser gives every uploaded part a filename and a size, so the \<open>None\<close> that the two
  attributes admit is left out.
\<close>

type_synonym bytes = "char list"

record upload_file =
  filename :: pystr
  file_size :: int
  file_stream :: bytes

definition validate_file :: "(pystr \<Rightarrow> nat \<Rightarrow> pystr) \<Rightarrow> 'a upload_file_scheme \<Rightarrow> exn + unit" where
  "validate_file U f =
     (if file_size f > MAX_FILE_SIZE then Inl TooLarge
      else case get_file_type U (filename f) of
             Inl e \<Rightarrow> Inl e
           | Inr _ \<Rightarrow> Inr ())"

section \<open>Values of the interpreter\<close>

text \<open>
  The values that \<open>json.loads\<close> builds from the output of the probe and that the
  metadata dictionaries hold. \<open>PFloat q\<close> is the double nearest to the rational \<open>q\<close>; a
  dictionary is an association list with distinct keys, in insertion order.
\<close>

datatype pyval =
    PNone
  | PBool bool
  | PInt int
  | PFloat rat
  | PStr string
  | PList "pyval list"
  | PDict "(string \<times> pyval) list"

definition exn_bind :: "exn + 'a \<Rightarrow> ('a \<Rightarrow> exn + 'b) \<Rightarrow> exn + 'b" where
  "exn_bind m k = (case m of Inl e \<Rightarrow> Inl e | Inr x \<Rightarrow> k x)"

text \<open>\<open>v[key]\<close> for a string key.\<close>

fun py_getitem :: "pyval \<Rightarrow> string \<Rightarrow> exn + pyval" where
  "py_getitem (PDict kvs) key =
     (case map_of kvs key of None \<Rightarrow> Inl (PyException ''KeyError'') | Some x \<Rightarrow> Inr x)"
| "py_getitem _ key = Inl (PyException ''TypeError'')"

text \<open>\<open>v.get(key, dflt)\<close>.\<close>

fun py_get :: "pyval \<Rightarrow> string \<Rightarrow> pyval \<Rightarrow> exn + pyval" where
  "py_get (PDict kvs) key dflt =
     (case map_of kvs key of None \<Rightarrow> Inr dflt | Some x \<Rightarrow> Inr x)"
| "py_get _ key dflt = Inl (PyException ''AttributeError'')"

text \<open>The elements that \<open>for stream in v\<close> visits.\<close>

fun py_iter :: "pyval \<Rightarrow> exn + pyval list" where
  "py_iter (PList xs) = Inr xs"
| "py_iter (PDict kvs) = Inr (map (\<lambda>kv. PStr (fst kv)) kvs)"
| "py_iter (PStr s) = Inr (map (\<lambda>c. PStr [c]) s)"
| "py_iter _ = Inl (PyException ''TypeError'')"

text \<open>The truth value of \<open>if v:\<close>.\<close>

fun truthy :: "pyval \<Rightarrow> bool" where
  "truthy PNone = False"
| "truthy (PBool b) = b"
| "truthy (PInt i) = (i \<noteq> 0)"
| "truthy (PFloat q) = (q \<noteq> 0)"
| "truthy (PStr s) = (s \<noteq> [])"
| "truthy (PList xs) = (xs \<noteq> [])"
| "truthy (PDict kvs) = (kvs \<noteq> [])"

text \<open>
  \<open>next((stream for stream in streams if stream['codec_type'] == kind), None)\<close>: the
  first stream of the kind, \<open>None\<close> when there is none; a stream met before it that
  has no \<open>codec_type\<close> raises.
\<close>

fun first_stream :: "pyval list \<Rightarrow> string \<Rightarrow> exn + pyval" where
  "first_stream [] kind = Inr PNone"
| "first_stream (stream # streams) kind =
     (case py_getitem stream ''codec_type'' of
        Inl e \<Rightarrow> Inl e
      | Inr t \<Rightarrow> if t = PStr kind then Inr stream else first_stream streams kind)"

section \<open>The environment of the pipeline\<close>

text \<open>
  A stored file is either the bytes of an upload or a JPEG image written by one of the
  imaging tools, kept by its width and height.
\<close>

datatype file_content = Uploaded bytes | Jpeg int int

text \<open>
  What the storage medium does with one \<open>open(path, "wb")\<close> followed by
  \<open>shutil.copyfileobj\<close>: the copy completes, \<open>open\<close> raises before the file exists, or
  a write raises after the given number of bytes has reached the file.
\<close>

datatype write_outcome = Complete | Open_fails | Fails_after nat

text \<open>
  What the frame extraction
  \<open>ffmpeg.input(path, ss=1).output(out, vframes=1, s='320x240').overwrite_output().run()\<close>
  does: it fails (a non-zero exit status raises \<open>ffmpeg.Error\<close>); it exits normally
  without writing a file, which is what the tool does when the stream ends before the
  offset of one second; or it exits normally having written one frame.
\<close>

datatype ffmpeg_outcome = Ffmpeg_error exn | No_frame | Frame_written

text \<open>An image opened by \<open>PIL.Image.open\<close>.\<close>

record pil_image =
  img_width :: int
  img_height :: int
  img_format :: pyval
  img_mode :: string

text \<open>
  Everything the source takes from outside itself is a field of the environment: the two
  directories of the configuration, the random bytes behind \<open>uuid.uuid4\<close>, the storage
  medium, and the external facilities with the interpreter's builtins \<open>int\<close>, \<open>float\<close>
  and \<open>eval\<close> and its Unicode database. The theorems hold for every environment.
  \<^item> \<open>ffmpeg_probe\<close> is \<open>ffmpeg.probe(path)\<close>: the parsed report of the probe, or the
    exception raised when the probe fails.
  \<^item> \<open>ffmpeg_run\<close> is the frame extraction.
  \<^item> \<open>image_open\<close> is \<open>Image.open(path)\<close>, \<open>image_load\<close> the decoding of the pixel data
    that \<open>thumbnail\<close> starts, \<open>image_save\<close> is \<open>img.save(out, "JPEG")\<close>.
  \<^item> \<open>upper_on_tie\<close> says, for an image of the given size, which of two equally good
    thumbnail sizes the double arithmetic of \<open>Image.thumbnail\<close> ends up with.
  \<^item> \<open>py_int\<close>, \<open>py_float\<close> and \<open>py_eval\<close> give the value that the builtin returns or the
    exception derived from \<open>Exception\<close> that it raises.
  \<^item> \<open>unicode_lower\<close> is the lower-casing of the code points from 128 on.
\<close>

record env =
  UPLOAD_DIR :: pystr
  THUMBNAIL_DIR :: pystr
  urandom :: "nat \<Rightarrow> 128 word"
  copy_outcome :: "(pystr \<rightharpoonup> file_content) \<Rightarrow> pystr \<Rightarrow> bytes \<Rightarrow> write_outcome"
  ffmpeg_probe :: "(pystr \<rightharpoonup> file_content) \<Rightarrow> pystr \<Rightarrow> exn + pyval"
  ffmpeg_run :: "(pystr \<rightharpoonup> file_content) \<Rightarrow> pystr \<Rightarrow> ffmpeg_outcome"
  image_open :: "(pystr \<rightharpoonup> file_content) \<Rightarrow> pystr \<Rightarrow> exn + pil_image"
  image_load :: "pil_image \<Rightarrow> exn option"
  image_save :: "pil_image \<Rightarrow> pystr \<Rightarrow> exn option"
  upper_on_tie :: "int \<times> int \<Rightarrow> bool"
  py_int :: "pyval \<Rightarrow> exn + pyval"
  py_float :: "pyval \<Rightarrow> exn + pyval"
  py_eval :: "pyval \<Rightarrow> exn + pyval"
  unicode_lower :: "pystr \<Rightarrow> nat \<Rightarrow> pystr"

text \<open>The state: the files on disk and the number of random tokens drawn so far.\<close>

record world =
  fs :: "pystr \<rightharpoonup> file_content"
  drawn :: nat

section \<open>Random tokens\<close>

text \<open>
  \<open>uuid.uuid4()\<close> builds a UUID from sixteen random bytes, with the variant and version
  bits set; \<open>str\<close> of it is the 32 hexadecimal digits of the number in groups of
  8, 4, 4, 4 and 12.
\<close>

definition uuid4 :: "128 word \<Rightarrow> 128 word" where
  "uuid4 r =
     (((r AND NOT (push_bit 48 0xc000)) OR push_bit 48 0x8000)
        AND NOT (push_bit 64 0xf000)) OR push_bit 76 4"

definition hexdigit :: "nat \<Rightarrow> nat" where
  "hexdigit n = str ''0123456789abcdef'' ! n"

definition hex32 :: "128 word \<Rightarrow> pystr" where
  "hex32 u = map (\<lambda>i. hexdigit (unat (drop_bit (4 * i) u AND 0xf))) (rev [0..<32])"

definition uuid_str :: "128 word \<Rightarrow> pystr" where
  "uuid_str u =
     (let h = hex32 u
      in take 8 h @ str ''-'' @ take 4 (drop 8 h) @ str ''-'' @ take 4 (drop 12 h) @ str ''-''
         @ take 4 (drop 16 h) @ str ''-'' @ drop 20 h)"

section \<open>Metadata extraction\<close>

text \<open>
  The body of the \<open>try\<close> block of \<open>extract_video_metadata\<close>: \<open>Inr None\<close> when the block
  falls through (no video stream), \<open>Inr (Some d)\<close> when it returns the dictionary \<open>d\<close>,
  \<open>Inl e\<close> when an exception leaves it. The entries are evaluated in the order of the
  dictionary display.
\<close>

definition video_try :: "env \<Rightarrow> exn + pyval \<Rightarrow> exn + (string \<times> pyval) list option" where
  "video_try E probed =
     exn_bind probed (\<lambda>probe.
     exn_bind (py_getitem probe ''streams'') (\<lambda>streams.
     exn_bind (py_iter streams) (\<lambda>ss.
     exn_bind (first_stream ss ''video'') (\<lambda>video_stream.
       if truthy video_stream then
         exn_bind (exn_bind (py_get video_stream ''width'' (PInt 0)) (py_int E)) (\<lambda>width.
         exn_bind (exn_bind (py_get video_stream ''height'' (PInt 0)) (py_int E)) (\<lambda>height.
         exn_bind (exn_bind (exn_bind (py_getitem probe ''format'')
                     (\<lambda>fmt. py_get fmt ''duration'' (PInt 0))) (py_float E)) (\<lambda>duration.
         exn_bind (exn_bind (py_get video_stream ''r_frame_rate'' (PStr ''30/1'')) (py_eval E)) (\<lambda>fps.
         exn_bind (py_get video_stream ''codec_name'' (PStr ''unknown'')) (\<lambda>codec.
           Inr (Some [(''width'', width), (''height'', height), (''duration'', duration),
                      (''fps'', fps), (''codec'', codec)]))))))
       else Inr None))))"

text \<open>\<open>except Exception\<close> prints the error and the function returns the empty dictionary.\<close>

definition extract_video_metadata :: "env \<Rightarrow> exn + pyval \<Rightarrow> (string \<times> pyval) list" where
  "extract_video_metadata E probed =
     (case video_try E probed of
        Inl e \<Rightarrow> []
      | Inr None \<Rightarrow> []
      | Inr (Some d) \<Rightarrow> d)"

definition audio_try :: "env \<Rightarrow> exn + pyval \<Rightarrow> exn + (string \<times> pyval) list option" where
  "audio_try E probed =
     exn_bind probed (\<lambda>probe.
     exn_bind (py_getitem probe ''streams'') (\<lambda>streams.
     exn_bind (py_iter streams) (\<lambda>ss.
     exn_bind (first_stream ss ''audio'') (\<lambda>audio_stream.
       if truthy audio_stream then
         exn_bind (exn_bind (exn_bind (py_getitem probe ''format'')
                     (\<lambda>fmt. py_get fmt ''duration'' (PInt 0))) (py_float E)) (\<lambda>duration.
         exn_bind (py_get audio_stream ''codec_name'' (PStr ''unknown'')) (\<lambda>codec.
         exn_bind (exn_bind (py_get audio_stream ''sample_rate'' (PInt 0)) (py_int E)) (\<lambda>sample_rate.
         exn_bind (exn_bind (py_get audio_stream ''channels'' (PInt 0)) (py_int E)) (\<lambda>channels.
           Inr (Some [(''duration'', duration), (''codec'', codec),
                      (''sample_rate'', sample_rate), (''channels'', channels)])))))
       else Inr None))))"

definition extract_audio_metadata :: "env \<Rightarrow> exn + pyval \<Rightarrow> (string \<times> pyval) list" where
  "extract_audio_metadata E probed =
     (case audio_try E probed of
        Inl e \<Rightarrow> []
      | Inr None \<Rightarrow> []
      | Inr (Some d) \<Rightarrow> d)"

definition extract_image_metadata :: "exn + pil_image \<Rightarrow> (string \<times> pyval) list" where
  "extract_image_metadata opened =
     (case opened of
        Inl e \<Rightarrow> []
      | Inr img \<Rightarrow> [(''width'', PInt (img_width img)), (''height'', PInt (img_height img)),
                    (''format'', img_format img)])"

section \<open>Storing an upload\<close>

text \<open>
  The path allocated for the original (lines 58 to 60 of the source): a fresh token, the
  lower-cased extension of the declared filename, joined under \<open>UPLOAD_DIR\<close>.
\<close>

definition unique_path :: "env \<Rightarrow> world \<Rightarrow> upload_file \<Rightarrow> pystr" where
  "unique_path E w f =
     (let file_ext = lower (unicode_lower E) (snd (splitext (filename f)));
          unique_filename = uuid_str (uuid4 (urandom E (drawn w))) @ file_ext
      in path_join (UPLOAD_DIR E) unique_filename)"

definition upload_file_to_storage ::
  "env \<Rightarrow> world \<Rightarrow> upload_file \<Rightarrow> (exn + pystr \<times> string \<times> (string \<times> pyval) list) \<times> world" where
  "upload_file_to_storage E w f =
     (case validate_file (unicode_lower E) f of
        Inl e \<Rightarrow> (Inl e, w)
      | Inr _ \<Rightarrow>
          let file_path = unique_path E w f;
              w1 = w\<lparr>drawn := drawn w + 1\<rparr>
          in case copy_outcome E (fs w1) file_path (file_stream f) of
               Open_fails \<Rightarrow> (Inl (PyException ''OSError''), w1)
             | Fails_after n \<Rightarrow>
                 (Inl (PyException ''OSError''),
                  w1\<lparr>fs := (fs w1)(file_path \<mapsto> Uploaded (take n (file_stream f)))\<rparr>)
             | Complete \<Rightarrow>
                 let w2 = w1\<lparr>fs := (fs w1)(file_path \<mapsto> Uploaded (file_stream f))\<rparr>
                 in case get_file_type (unicode_lower E) (filename f) of
                      Inl e \<Rightarrow> (Inl e, w2)
                    | Inr file_type \<Rightarrow>
                        let metadata =
                          (if file_type = ''video''
                           then extract_video_metadata E (ffmpeg_probe E (fs w2) file_path)
                           else if file_type = ''audio''
                           then extract_audio_metadata E (ffmpeg_probe E (fs w2) file_path)
                           else if file_type = ''image''
                           then extract_image_metadata (image_open E (fs w2) file_path)
                           else [])
                        in (Inr (file_path, file_type, metadata), w2))"

section \<open>Thumbnails\<close>

text \<open>
  The size computation of \<open>PIL.Image.thumbnail\<close>. The library computes in doubles; the
  model computes in exact rational arithmetic. \<open>min(a, b, key=k)\<close> is \<open>a\<close> unless
  \<open>k(b) < k(a)\<close>. For the sizes of an image that the library opens, the doubles give the
  floor, the ceiling and the order of the two keys of the exact values, except where the
  two keys are exactly equal: there the rounding of the doubles decides between the two
  candidates, and the model takes the decision as the parameter \<open>upper\<close>.
\<close>

definition round_aspect :: "bool \<Rightarrow> rat \<Rightarrow> (int \<Rightarrow> rat) \<Rightarrow> int" where
  "round_aspect upper number key =
     max (if key \<lceil>number\<rceil> < key \<lfloor>number\<rfloor> \<or> (key \<lceil>number\<rceil> = key \<lfloor>number\<rfloor> \<and> upper)
          then \<lceil>number\<rceil> else \<lfloor>number\<rfloor>) 1"

definition preserve_aspect_ratio ::
  "bool \<Rightarrow> int \<times> int \<Rightarrow> int \<times> int \<Rightarrow> exn + (int \<times> int) option" where
  "preserve_aspect_ratio upper provided_size image_size =
     (let (x, y) = provided_size; (width, height) = image_size
      in if x \<ge> width \<and> y \<ge> height then Inr None
         else if height = 0 \<or> y = 0 then Inl (PyException ''ZeroDivisionError'')
         else
           let aspect = (of_int width / of_int height :: rat)
           in if of_int x / of_int y \<ge> aspect
              then Inr (Some (round_aspect upper (of_int y * aspect)
                                (\<lambda>n. \<bar>aspect - of_int n / of_int y\<bar>), y))
              else if aspect = 0 then Inl (PyException ''ZeroDivisionError'')
              else Inr (Some (x, round_aspect upper (of_int x / aspect)
                                (\<lambda>n. if n = 0 then 0 else \<bar>aspect - of_int x / of_int n\<bar>))))"

definition thumbnail :: "env \<Rightarrow> int \<times> int \<Rightarrow> pil_image \<Rightarrow> exn + pil_image" where
  "thumbnail E provided_size img =
     (case preserve_aspect_ratio (upper_on_tie E (img_width img, img_height img)) provided_size
             (img_width img, img_height img) of
        Inl e \<Rightarrow> Inl e
      | Inr None \<Rightarrow> Inr img
      | Inr (Some (x, y)) \<Rightarrow>
          (case image_load E img of
             Some e \<Rightarrow> Inl e
           | None \<Rightarrow> Inr (img\<lparr>img_width := x, img_height := y\<rparr>)))"

text \<open>
  \<open>generate_thumbnail\<close>: every exception raised inside is caught and gives \<open>None\<close>. The
  path is returned whenever the frame extraction exits normally, whether it has written
  a file or not; a frame it has written has the size given by \<open>s='320x240'\<close>. A
  successful \<open>save\<close> has written the image at its current size.
\<close>

definition generate_thumbnail :: "env \<Rightarrow> world \<Rightarrow> pystr \<Rightarrow> string \<Rightarrow> pystr option \<times> world" where
  "generate_thumbnail E w file_path file_type =
     (let thumbnail_filename = uuid_str (uuid4 (urandom E (drawn w))) @ str ''.jpg'';
          w1 = w\<lparr>drawn := drawn w + 1\<rparr>;
          thumbnail_path = path_join (THUMBNAIL_DIR E) thumbnail_filename
      in if file_type = ''video'' then
           (case ffmpeg_run E (fs w1) file_path of
              Ffmpeg_error e \<Rightarrow> (None, w1)
            | No_frame \<Rightarrow> (Some thumbnail_path, w1)
            | Frame_written \<Rightarrow>
                (Some thumbnail_path, w1\<lparr>fs := (fs w1)(thumbnail_path \<mapsto> Jpeg 320 240)\<rparr>))
         else if file_type = ''image'' then
           (case exn_bind (image_open E (fs w1) file_path) (thumbnail E (320, 240)) of
              Inl e \<Rightarrow> (None, w1)
            | Inr img \<Rightarrow>
                (case image_save E img thumbnail_path of
                   Some e \<Rightarrow> (None, w1)
                 | None \<Rightarrow>
                     (Some thumbnail_path,
                      w1\<lparr>fs := (fs w1)(thumbnail_path \<mapsto> Jpeg (img_width img) (img_height img))\<rparr>)))
         else (None, w1))"

text \<open>
  The ingestion as the upload route sequences it: store the upload and extract its
  metadata, then generate the thumbnail of the stored file.
\<close>

definition ingest ::
  "env \<Rightarrow> world \<Rightarrow> upload_file
     \<Rightarrow> (exn + pystr \<times> string \<times> (string \<times> pyval) list \<times> pystr option) \<times> world" where
  "ingest E w f =
     (case upload_file_to_storage E w f of
        (Inl e, w') \<Rightarrow> (Inl e, w')
      | (Inr (file_path, file_type, metadata), w') \<Rightarrow>
          (case generate_thumbnail E w' file_path file_type of
             (thumbnail_path, w'') \<Rightarrow>
               (Inr (file_path, file_type, metadata, thumbnail_path), w'')))"

section \<open>An example environment\<close>

text \<open>
  The inputs at which the theorems are instantiated, and the interpreter on the few
  arguments they use.
  \<^item> \<open>true_divide a b\<close> is \<open>a / b\<close> for two integers: \<open>ZeroDivisionError\<close> for a zero
    divisor, \<open>OverflowError\<close> when the quotient rounds beyond the largest double, and
    otherwise the double nearest to the quotient.
  \<^item> \<open>literal_int\<close> is \<open>int\<close> on a number, on a string of at most 4300 decimal digits,
    and on a string that holds a letter, which \<open>int\<close> refuses; \<open>literal_float\<close> is \<open>float\<close>
    on a number and on a string of at most 300 decimal digits with at most one decimal
    point inside; \<open>literal_eval\<close> is \<open>eval\<close> on a decimal integer literal of at most 4300
    digits and on the quotient of two such literals.
  \<^item> \<open>kelvin_lower\<close> holds one entry of the Unicode database: the Kelvin sign U+212A
    lowers to the letter \<open>k\<close>.
  On every other argument the examples still answer (the two parsers and the evaluator
  raise, the table returns the code point unchanged), and there they do not stand for
  the interpreter, which accepts more: \<open>int\<close> of a digit string with blanks or a sign,
  \<open>eval\<close> of any expression, the lower-casing of every capital letter. No theorem
  evaluates them there.
\<close>

definition is_digits :: "string \<Rightarrow> bool" where
  "is_digits s \<longleftrightarrow> s \<noteq> [] \<and> list_all (\<lambda>c. c \<in> set ''0123456789'') s"

definition digits_value :: "string \<Rightarrow> int" where
  "digits_value s = foldl (\<lambda>a c. 10 * a + (of_char c - 48)) 0 s"

definition int_literal :: "string \<Rightarrow> bool" where
  "int_literal s \<longleftrightarrow>
     is_digits s \<and> length s \<le> 4300 \<and> (hd s \<noteq> CHR ''0'' \<or> list_all (\<lambda>c. c = CHR ''0'') s)"

definition true_divide :: "int \<Rightarrow> int \<Rightarrow> exn + pyval" where
  "true_divide a b =
     (if b = 0 then Inl (PyException ''ZeroDivisionError'')
      else if \<bar>of_int a / of_int b :: rat\<bar> \<ge> 2 ^ 1024 - 2 ^ 970
      then Inl (PyException ''OverflowError'')
      else Inr (PFloat (of_int a / of_int b)))"

fun literal_int :: "pyval \<Rightarrow> exn + pyval" where
  "literal_int (PInt i) = Inr (PInt i)"
| "literal_int (PBool b) = Inr (PInt (if b then 1 else 0))"
| "literal_int (PFloat q) = Inr (PInt (if 0 \<le> q then \<lfloor>q\<rfloor> else \<lceil>q\<rceil>))"
| "literal_int (PStr s) =
     (if is_digits s \<and> length s \<le> 4300 then Inr (PInt (digits_value s))
      else Inl (PyException ''ValueError''))"
| "literal_int _ = Inl (PyException ''TypeError'')"

fun literal_float :: "pyval \<Rightarrow> exn + pyval" where
  "literal_float (PInt i) =
     (if \<bar>of_int i :: rat\<bar> \<ge> 2 ^ 1024 - 2 ^ 970 then Inl (PyException ''OverflowError'')
      else Inr (PFloat (of_int i)))"
| "literal_float (PBool b) = Inr (PFloat (if b then 1 else 0))"
| "literal_float (PFloat q) = Inr (PFloat q)"
| "literal_float (PStr s) =
     (let a = takeWhile (\<lambda>c. c \<noteq> CHR ''.'') s; r = dropWhile (\<lambda>c. c \<noteq> CHR ''.'') s
      in if length s > 301 then Inl (PyException ''ValueError'')
         else if r = [] then
           (if is_digits a then Inr (PFloat (of_int (digits_value a)))
            else Inl (PyException ''ValueError''))
         else if is_digits a \<and> is_digits (tl r)
         then Inr (PFloat (of_int (digits_value (a @ tl r)) / 10 ^ length (tl r)))
         else Inl (PyException ''ValueError''))"
| "literal_float _ = Inl (PyException ''TypeError'')"

fun literal_eval :: "pyval \<Rightarrow> exn + pyval" where
  "literal_eval (PStr s) =
     (let a = takeWhile (\<lambda>c. c \<noteq> CHR ''/'') s; r = dropWhile (\<lambda>c. c \<noteq> CHR ''/'') s
      in if r = [] then
           (if int_literal a then Inr (PInt (digits_value a))
            else Inl (PyException ''SyntaxError''))
         else if int_literal a \<and> int_literal (tl r)
         then true_divide (digits_value a) (digits_value (tl r))
         else Inl (PyException ''SyntaxError''))"
| "literal_eval _ = Inl (PyException ''TypeError'')"

definition kelvin_lower :: "pystr \<Rightarrow> nat \<Rightarrow> pystr" where
  "kelvin_lower s i = (if s ! i = 0x212A then [0x6B] else [s ! i])"

text \<open>
  In the example environment the disk takes every write, and no tool can read the stored
  file: the probe, the decoder and the frame extraction all fail.
\<close>

definition example_env :: env where
  "example_env = \<lparr>
     UPLOAD_DIR = str ''./uploads'',
     THUMBNAIL_DIR = str ''./thumbnails'',
     urandom = (\<lambda>n. 0x0123456789abcdef0123456789abcdef + of_nat n),
     copy_outcome = (\<lambda>files path data. Complete),
     ffmpeg_probe = (\<lambda>files path. Inl (PyException ''Error'')),
     ffmpeg_run = (\<lambda>files path. Ffmpeg_error (PyException ''Error'')),
     image_open = (\<lambda>files path. Inl (PyException ''UnidentifiedImageError'')),
     image_load = (\<lambda>img. None),
     image_save = (\<lambda>img path. None),
     upper_on_tie = (\<lambda>dims. False),
     py_int = literal_int,
     py_float = literal_float,
     py_eval = literal_eval,
     unicode_lower = kelvin_lower\<rparr>"

definition empty_world :: world where
  "empty_world = \<lparr>fs = Map.empty, drawn = 0\<rparr>"

text \<open>A six-byte upload under a crafted filename, and a disk that fails after three bytes.\<close>

definition crafted_upload :: upload_file where
  "crafted_upload =
     \<lparr>filename = str ''../../etc/passwd.MP4'', file_size = 6, file_stream = ''abcdef''\<rparr>"

definition failing_disk_env :: env where
  "failing_disk_env = example_env\<lparr>copy_outcome := (\<lambda>files path data. Fails_after 3)\<rparr>"

text \<open>An upload whose extension is \<open>.m\<close>, the Kelvin sign, \<open>V\<close>.\<close>

definition kelvin_upload :: upload_file where
  "kelvin_upload =
     \<lparr>filename = str ''clip.m'' @ [0x212A] @ str ''V'', file_size = 6, file_stream = ''abcdef''\<rparr>"

text \<open>The report of the probe for a video of 1920 by 1080 pixels, and for an audio file.\<close>

definition video_stream :: "string \<Rightarrow> pyval" where
  "video_stream rate =
     PDict [(''codec_type'', PStr ''video''), (''codec_name'', PStr ''h264''),
            (''width'', PInt 1920), (''height'', PInt 1080), (''r_frame_rate'', PStr rate)]"

definition audio_stream :: "string \<Rightarrow> pyval" where
  "audio_stream rate =
     PDict [(''codec_type'', PStr ''audio''), (''codec_name'', PStr ''mp3''),
            (''sample_rate'', PStr rate), (''channels'', PInt 2)]"

definition probe_format :: pyval where
  "probe_format = PDict [(''duration'', PStr ''12.5'')]"

definition video_probe :: "string \<Rightarrow> pyval" where
  "video_probe rate =
     PDict [(''streams'', PList [video_stream rate]), (''format'', probe_format)]"

definition audio_probe :: "string \<Rightarrow> pyval" where
  "audio_probe rate =
     PDict [(''streams'', PList [audio_stream rate]), (''format'', probe_format)]"




section \<open>Facts about the path functions\<close>

lemma rfind_ge: "- 1 \<le> rfind p c"
  by (induction p) (auto simp: Let_def)

lemma rfind_notin: "c \<notin> set p \<Longrightarrow> rfind p c = - 1"
  by (induction p) (auto simp: Let_def)

lemma rfind_in: "c \<in> set p \<Longrightarrow> 0 \<le> rfind p c"
  by (induction p) (auto simp: Let_def)

lemma rfind_append_notin: "c \<notin> set ys \<Longrightarrow> rfind (xs @ ys) c = rfind xs c"
  by (induction xs) (auto simp: Let_def rfind_notin)

lemma rfind_append_last: "c \<notin> set ys \<Longrightarrow> rfind (xs @ c # ys) c = int (length xs)"
  by (induction xs) (auto simp: Let_def rfind_notin)

lemma rfind_less: "rfind p c < int (length p)"
  by (induction p) (auto simp: Let_def)

lemma skip_leading_dots_iff:
  "skip_leading_dots p i d \<longleftrightarrow> (\<exists>j. i \<le> j \<and> j < d \<and> take 1 (drop j p) \<noteq> [46])"
proof (induction p i d rule: skip_leading_dots.induct)
  case (1 p i d)
  show ?case
  proof (cases "i < d")
    case False
    then show ?thesis
      by (subst skip_leading_dots.simps) auto
  next
    case True
    show ?thesis
    proof (cases "take 1 (drop i p) \<noteq> [46]")
      case True
      with \<open>i < d\<close> show ?thesis
        by (subst skip_leading_dots.simps) auto
    next
      case False
      with \<open>i < d\<close> have "skip_leading_dots p i d = skip_leading_dots p (i + 1) d"
        by (subst skip_leading_dots.simps) simp
      also have "\<dots> \<longleftrightarrow> (\<exists>j. i + 1 \<le> j \<and> j < d \<and> take 1 (drop j p) \<noteq> [46])"
        using "1.IH" \<open>i < d\<close> False by simp
      also have "\<dots> \<longleftrightarrow> (\<exists>j. i \<le> j \<and> j < d \<and> take 1 (drop j p) \<noteq> [46])"
      proof
        assume "\<exists>j. i + 1 \<le> j \<and> j < d \<and> take 1 (drop j p) \<noteq> [46]"
        then show "\<exists>j. i \<le> j \<and> j < d \<and> take 1 (drop j p) \<noteq> [46]"
          by (meson add_leD1)
      next
        assume "\<exists>j. i \<le> j \<and> j < d \<and> take 1 (drop j p) \<noteq> [46]"
        then obtain j where j: "i \<le> j" "j < d" "take 1 (drop j p) \<noteq> [46]"
          by blast
        with False have "j \<noteq> i"
          by auto
        with j show "\<exists>j. i + 1 \<le> j \<and> j < d \<and> take 1 (drop j p) \<noteq> [46]"
          by (intro exI [of _ j]) simp
      qed
      finally show ?thesis .
    qed
  qed
qed

lemma rfind_last_sep: "dir \<noteq> [] \<Longrightarrow> last dir = c \<Longrightarrow> rfind dir c = int (length dir) - 1"
proof -
  assume a: "dir \<noteq> []" "last dir = c"
  then have "dir = butlast dir @ c # []"
    by (metis append_butlast_last_id)
  then have "rfind dir c = int (length (butlast dir))"
    using rfind_append_last [of c "[]" "butlast dir"] by simp
  moreover from a have "0 < length dir"
    by simp
  ultimately show ?thesis
    by (simp add: of_nat_diff)
qed

lemma sep_index_component:
  assumes "dir = [] \<or> last dir = c" and "c \<notin> set name"
  shows "rfind (dir @ name) c + 1 = int (length dir)"
proof (cases "dir = []")
  case True
  with assms show ?thesis
    by (simp add: rfind_notin)
next
  case False
  with assms have "rfind dir c = int (length dir) - 1"
    by (simp add: rfind_last_sep)
  with assms show ?thesis
    by (simp add: rfind_append_notin)
qed

lemma take1_drop: "j < length p \<Longrightarrow> take 1 (drop j p) = [p ! j]"
  by (simp add: take_Suc_conv_app_nth)

text \<open>
  A last path component made of leading dots and a dot-free rest has no extension
  (\<open>video\<close>, \<open>.mp4\<close>, \<open>dir.d/..profile\<close>).
\<close>

lemma splitext_no_ext:
  assumes dir: "dir = [] \<or> last dir = 47"
    and dots: "set dots \<subseteq> {46}"
    and rest: "46 \<notin> set rest" "47 \<notin> set rest"
  shows "splitext (dir @ dots @ rest) = (dir @ dots @ rest, [])"
proof -
  let ?p = "dir @ dots @ rest"
  have "(47 :: nat) \<noteq> 46"
    by simp
  with dots have nosep: "47 \<notin> set dots"
    by blast
  have sep: "rfind ?p 47 + 1 = int (length dir)"
    using sep_index_component [OF dir, of "dots @ rest"] nosep rest by simp
  have dot_le: "rfind ?p (46) < int (length dir) + int (length dots)"
    using rfind_append_notin [of "46" rest "dir @ dots"] rest
      rfind_less [of "dir @ dots" "46"]
    by simp
  have "\<not> (rfind ?p (46) > rfind ?p (47)
           \<and> skip_leading_dots ?p (nat (rfind ?p (47) + 1)) (nat (rfind ?p (46))))"
  proof
    assume "rfind ?p (46) > rfind ?p (47)
           \<and> skip_leading_dots ?p (nat (rfind ?p (47) + 1)) (nat (rfind ?p (46)))"
    then obtain j where j: "nat (rfind ?p (47) + 1) \<le> j" "j < nat (rfind ?p (46))"
        "take 1 (drop j ?p) \<noteq> [46]"
      unfolding skip_leading_dots_iff by blast
    from j sep have j1: "length dir \<le> j"
      by simp
    from j dot_le have j2: "j < length dir + length dots"
      by linarith
    from j1 j2 have j3: "j - length dir < length dots"
      by linarith
    with j1 have "?p ! j = dots ! (j - length dir)"
      by (simp add: nth_append)
    moreover from j3 dots have "dots ! (j - length dir) = 46"
      by (metis nth_mem singletonD subsetD)
    moreover from j2 have "take 1 (drop j ?p) = [?p ! j]"
      by (intro take1_drop) simp
    ultimately show False
      using j by simp
  qed
  then show ?thesis
    unfolding splitext_def Let_def by (simp only: if_False)
qed

text \<open>
  A last path component with a character other than the dot before its last dot is split
  at that dot.
\<close>

lemma splitext_ext:
  assumes dir: "dir = [] \<or> last dir = 47"
    and name: "47 \<notin> set name" "\<exists>c\<in>set name. c \<noteq> 46"
    and suffix: "46 \<notin> set suffix" "47 \<notin> set suffix"
  shows "splitext (dir @ name @ 46 # suffix) = (dir @ name, 46 # suffix)"
proof -
  let ?p = "dir @ name @ 46 # suffix"
  have sep: "rfind ?p (47) + 1 = int (length dir)"
    using sep_index_component [OF dir, of "name @ 46 # suffix"] name suffix by auto
  have dot: "rfind ?p (46) = int (length (dir @ name))"
    using rfind_append_last [of "46" suffix "dir @ name"] suffix by simp
  from name obtain k where k: "k < length name" "name ! k \<noteq> 46"
    by (metis in_set_conv_nth)
  have "take 1 (drop (length dir + k) ?p) = [?p ! (length dir + k)]"
    using k by (intro take1_drop) simp
  moreover have "?p ! (length dir + k) = name ! k"
    using k by (simp add: nth_append)
  ultimately have "take 1 (drop (length dir + k) ?p) \<noteq> [46]"
    using k by simp
  then have "skip_leading_dots ?p (length dir) (length dir + length name)"
    unfolding skip_leading_dots_iff using k by (intro exI [of _ "length dir + k"]) simp
  moreover have "nat (rfind ?p (47) + 1) = length dir"
    using sep by simp
  moreover have "nat (rfind ?p (46)) = length dir + length name"
    using dot by simp
  moreover have "rfind ?p (46) > rfind ?p (47)"
    using sep dot by simp
  ultimately show ?thesis
    unfolding splitext_def Let_def by simp
qed

lemma supported_disjoint:
  "SUPPORTED_VIDEO_TYPES \<inter> SUPPORTED_AUDIO_TYPES = {}"
  "SUPPORTED_VIDEO_TYPES \<inter> SUPPORTED_IMAGE_TYPES = {}"
  "SUPPORTED_AUDIO_TYPES \<inter> SUPPORTED_IMAGE_TYPES = {}"
  by (simp_all add: SUPPORTED_VIDEO_TYPES_def SUPPORTED_AUDIO_TYPES_def SUPPORTED_IMAGE_TYPES_def
      str_def)

lemma get_file_type_cases:
  "get_file_type U fname = Inr ''video'' \<or> get_file_type U fname = Inr ''audio''
   \<or> get_file_type U fname = Inr ''image''
   \<or> get_file_type U fname = Inl (UnsupportedType (lower U (snd (splitext fname))))"
  by (simp add: get_file_type_def Let_def)

lemma TooLarge_detail:
  "TooLarge = HTTPException 400 (str ''File too large. Maximum size is 100MB'')"
  by code_simp

lemma lower_ascii:
  assumes "\<forall>c\<in>set s. c < 128"
  shows "lower U s = map (\<lambda>c. if 65 \<le> c \<and> c \<le> 90 then c + 32 else c) s"
proof -
  let ?g = "\<lambda>c :: nat. if 65 \<le> c \<and> c \<le> 90 then c + 32 else c"
  have "map (\<lambda>i. let c = s ! i
                  in if 65 \<le> c \<and> c \<le> 90 then [c + 32] else if c < 128 then [c] else U s i)
            [0..<length s]
      = map (\<lambda>i. [?g (s ! i)]) [0..<length s]"
    using assms by (intro map_cong refl) (auto simp: Let_def)
  also have "\<dots> = map (\<lambda>c. [?g c]) (map ((!) s) [0..<length s])"
    by (simp add: comp_def)
  also have "\<dots> = map (\<lambda>c. [?g c]) s"
    by (simp only: map_nth)
  finally have "lower U s = concat (map (\<lambda>c. [?g c]) s)"
    by (simp only: lower_def)
  then show ?thesis
    by (simp add: concat_map_singleton)
qed

lemma lower_single: "128 \<le> c \<Longrightarrow> lower U [c] = U [c] 0"
  by (simp add: lower_def)

lemma lower_Nil: "lower U [] = []"
  by (simp add: lower_def)

section \<open>The classifier\<close>

text \<open>
  C8. \<open>get_file_type\<close> is a function of the filename alone (and of the Unicode database
  of the interpreter). With \<open>ext\<close> the lower-cased extension of the filename (the second
  component of \<open>os.path.splitext\<close>), it returns \<open>video\<close> exactly when \<open>ext\<close> is one of
  \<open>.mp4 .mov .avi .mkv .webm\<close>, \<open>audio\<close> exactly when it is one of
  \<open>.mp3 .wav .aac .m4a .ogg\<close>, \<open>image\<close> exactly when it is one of
  \<open>.jpg .jpeg .png .gif .webp\<close>, and it fails with the unsupported-type error exactly
  when \<open>ext\<close> is in none of the three sets: there is no default kind. Lower-casing moves
  the letters \<open>A\<close> .. \<open>Z\<close> to \<open>a\<close> .. \<open>z\<close>, keeps every other code point below 128, and
  takes the others from the database. So a filename \<open>dir/name.suffix\<close>, where \<open>name\<close> has
  a character other than the dot and \<open>suffix\<close> is ASCII with neither a dot nor a
  separator, is classified by \<open>.suffix\<close> with its capital letters lowered.
\<close>

theorem get_file_type_classifies:
  "(get_file_type U fname = Inr ''video''
      \<longleftrightarrow> lower U (snd (splitext fname))
            \<in> {str ''.mp4'', str ''.mov'', str ''.avi'', str ''.mkv'', str ''.webm''})
   \<and> (get_file_type U fname = Inr ''audio''
      \<longleftrightarrow> lower U (snd (splitext fname))
            \<in> {str ''.mp3'', str ''.wav'', str ''.aac'', str ''.m4a'', str ''.ogg''})
   \<and> (get_file_type U fname = Inr ''image''
      \<longleftrightarrow> lower U (snd (splitext fname))
            \<in> {str ''.jpg'', str ''.jpeg'', str ''.png'', str ''.gif'', str ''.webp''})
   \<and> (get_file_type U fname = Inl (UnsupportedType (lower U (snd (splitext fname))))
      \<longleftrightarrow> lower U (snd (splitext fname)) \<notin>
            {str ''.mp4'', str ''.mov'', str ''.avi'', str ''.mkv'', str ''.webm''}
            \<union> {str ''.mp3'', str ''.wav'', str ''.aac'', str ''.m4a'', str ''.ogg''}
            \<union> {str ''.jpg'', str ''.jpeg'', str ''.png'', str ''.gif'', str ''.webp''})
   \<and> (\<forall>e. get_file_type U fname = Inl e
          \<longrightarrow> e = UnsupportedType (lower U (snd (splitext fname))))
   \<and> ((\<forall>c\<in>set s. c < 128)
      \<longrightarrow> lower U s = map (\<lambda>c. if 65 \<le> c \<and> c \<le> 90 then c + 32 else c) s)
   \<and> (128 \<le> c \<longrightarrow> lower U [c] = U [c] 0)
   \<and> ((dir = [] \<or> last dir = 47) \<and> 47 \<notin> set name \<and> (\<exists>c\<in>set name. c \<noteq> 46)
        \<and> 46 \<notin> set suffix \<and> 47 \<notin> set suffix \<and> (\<forall>c\<in>set suffix. c < 128)
      \<longrightarrow> get_file_type U (dir @ name @ 46 # suffix) =
           (let e = 46 # map (\<lambda>c. if 65 \<le> c \<and> c \<le> 90 then c + 32 else c) suffix
            in if e \<in> {str ''.mp4'', str ''.mov'', str ''.avi'', str ''.mkv'', str ''.webm''}
               then Inr ''video''
               else if e \<in> {str ''.mp3'', str ''.wav'', str ''.aac'', str ''.m4a'', str ''.ogg''}
               then Inr ''audio''
               else if e \<in> {str ''.jpg'', str ''.jpeg'', str ''.png'', str ''.gif'', str ''.webp''}
               then Inr ''image''
               else Inl (UnsupportedType e)))"
proof -
  let ?ext = "lower U (snd (splitext fname))"
  have video: "get_file_type U fname = Inr ''video'' \<longleftrightarrow> ?ext \<in> SUPPORTED_VIDEO_TYPES"
    by (simp add: get_file_type_def Let_def)
  have audio: "get_file_type U fname = Inr ''audio'' \<longleftrightarrow> ?ext \<in> SUPPORTED_AUDIO_TYPES"
    using supported_disjoint by (auto simp: get_file_type_def Let_def)
  have image: "get_file_type U fname = Inr ''image'' \<longleftrightarrow> ?ext \<in> SUPPORTED_IMAGE_TYPES"
    using supported_disjoint by (auto simp: get_file_type_def Let_def)
  have unsupported: "get_file_type U fname = Inl (UnsupportedType ?ext)
      \<longleftrightarrow> ?ext \<notin> SUPPORTED_VIDEO_TYPES \<union> SUPPORTED_AUDIO_TYPES \<union> SUPPORTED_IMAGE_TYPES"
    by (simp add: get_file_type_def Let_def)
  have only: "\<forall>e. get_file_type U fname = Inl e \<longrightarrow> e = UnsupportedType ?ext"
    by (simp add: get_file_type_def Let_def)
  have ascii: "(\<forall>c\<in>set s. c < 128)
      \<longrightarrow> lower U s = map (\<lambda>c. if 65 \<le> c \<and> c \<le> 90 then c + 32 else c) s"
    by (simp add: lower_ascii)
  have other: "128 \<le> c \<longrightarrow> lower U [c] = U [c] 0"
    by (simp add: lower_single)
  have shape: "get_file_type U (dir @ name @ 46 # suffix) =
           (let e = 46 # map (\<lambda>c. if 65 \<le> c \<and> c \<le> 90 then c + 32 else c) suffix
            in if e \<in> SUPPORTED_VIDEO_TYPES then Inr ''video''
               else if e \<in> SUPPORTED_AUDIO_TYPES then Inr ''audio''
               else if e \<in> SUPPORTED_IMAGE_TYPES then Inr ''image''
               else Inl (UnsupportedType e))"
    if h: "(dir = [] \<or> last dir = 47) \<and> 47 \<notin> set name \<and> (\<exists>c\<in>set name. c \<noteq> 46)
        \<and> 46 \<notin> set suffix \<and> 47 \<notin> set suffix \<and> (\<forall>c\<in>set suffix. c < 128)"
  proof -
    from h have "snd (splitext (dir @ name @ 46 # suffix)) = 46 # suffix"
      by (simp add: splitext_ext)
    moreover from h have "\<forall>c\<in>set (46 # suffix). c < 128"
      by simp
    then have "lower U (46 # suffix)
        = map (\<lambda>c. if 65 \<le> c \<and> c \<le> 90 then c + 32 else c) (46 # suffix)"
      by (rule lower_ascii)
    ultimately have "lower U (snd (splitext (dir @ name @ 46 # suffix)))
        = 46 # map (\<lambda>c. if 65 \<le> c \<and> c \<le> 90 then c + 32 else c) suffix"
      by simp
    then show ?thesis
      by (simp add: get_file_type_def Let_def)
  qed
  from video audio image unsupported only ascii other shape show ?thesis
    unfolding SUPPORTED_VIDEO_TYPES_def SUPPORTED_AUDIO_TYPES_def SUPPORTED_IMAGE_TYPES_def
    by blast
qed

theorem get_file_type_classifies_witness:
  "get_file_type kelvin_lower (str ''clips/'' @ str ''Holiday.Clip'' @ 46 # str ''MP4'') = Inr ''video''
   \<and> get_file_type kelvin_lower (str ''notes.txt'') = Inl (UnsupportedType (str ''.txt''))
   \<and> get_file_type kelvin_lower (str ''clip.m'' @ [0x212A] @ str ''V'') = Inr ''video''
   \<and> lower kelvin_lower (str ''.MP4'') = str ''.mp4''"
proof -
  note shaped = get_file_type_classifies
    [of kelvin_lower "str ''notes.txt''" "str ''.MP4''" 0 "str ''clips/''" "str ''Holiday.Clip''"
      "str ''MP4''"]
  note other = get_file_type_classifies
    [of kelvin_lower "str ''notes.txt''" "[]" 0 "[]" "[]" "[]"]
  note kelvin = get_file_type_classifies
    [of kelvin_lower "str ''clip.m'' @ [0x212A] @ str ''V''" "[]" 0 "[]" "[]" "[]"]
  have h: "(str ''clips/'' = [] \<or> last (str ''clips/'') = 47) \<and> 47 \<notin> set (str ''Holiday.Clip'')
      \<and> (\<exists>c\<in>set (str ''Holiday.Clip''). c \<noteq> 46) \<and> 46 \<notin> set (str ''MP4'')
      \<and> 47 \<notin> set (str ''MP4'') \<and> (\<forall>c\<in>set (str ''MP4''). c < 128)"
    by (simp add: str_def)
  have v: "(let e = 46 # map (\<lambda>c. if 65 \<le> c \<and> c \<le> 90 then c + 32 else c) (str ''MP4'')
            in if e \<in> {str ''.mp4'', str ''.mov'', str ''.avi'', str ''.mkv'', str ''.webm''}
               then Inr ''video''
               else if e \<in> {str ''.mp3'', str ''.wav'', str ''.aac'', str ''.m4a'', str ''.ogg''}
               then Inr ''audio''
               else if e \<in> {str ''.jpg'', str ''.jpeg'', str ''.png'', str ''.gif'', str ''.webp''}
               then Inr ''image''
               else Inl (UnsupportedType e)) = Inr ''video''"
    by (simp add: str_def)
  have c1: "get_file_type kelvin_lower (str ''clips/'' @ str ''Holiday.Clip'' @ 46 # str ''MP4'')
      = Inr ''video''"
    using shaped [THEN conjunct2, THEN conjunct2, THEN conjunct2, THEN conjunct2, THEN conjunct2,
        THEN conjunct2, THEN conjunct2, THEN mp, OF h] v
    by (rule trans)
  have e2: "lower kelvin_lower (snd (splitext (str ''notes.txt''))) = str ''.txt''"
    by code_simp
  have m2: "lower kelvin_lower (snd (splitext (str ''notes.txt''))) \<notin>
        {str ''.mp4'', str ''.mov'', str ''.avi'', str ''.mkv'', str ''.webm''}
        \<union> {str ''.mp3'', str ''.wav'', str ''.aac'', str ''.m4a'', str ''.ogg''}
        \<union> {str ''.jpg'', str ''.jpeg'', str ''.png'', str ''.gif'', str ''.webp''}"
    unfolding e2 by (simp add: str_def)
  have "get_file_type kelvin_lower (str ''notes.txt'')
      = Inl (UnsupportedType (lower kelvin_lower (snd (splitext (str ''notes.txt'')))))"
    by (rule other [THEN conjunct2, THEN conjunct2, THEN conjunct2, THEN conjunct1,
          THEN iffD2, OF m2])
  then have c2: "get_file_type kelvin_lower (str ''notes.txt'') = Inl (UnsupportedType (str ''.txt''))"
    by (simp only: e2)
  have e3: "lower kelvin_lower (snd (splitext (str ''clip.m'' @ [0x212A] @ str ''V''))) = str ''.mkv''"
    by code_simp
  have m3: "lower kelvin_lower (snd (splitext (str ''clip.m'' @ [0x212A] @ str ''V'')))
      \<in> {str ''.mp4'', str ''.mov'', str ''.avi'', str ''.mkv'', str ''.webm''}"
    unfolding e3 by simp
  have c3: "get_file_type kelvin_lower (str ''clip.m'' @ [0x212A] @ str ''V'') = Inr ''video''"
    by (rule kelvin [THEN conjunct1, THEN iffD2, OF m3])
  have a: "\<forall>c\<in>set (str ''.MP4''). c < 128"
    by (simp add: str_def)
  have "lower kelvin_lower (str ''.MP4'')
      = map (\<lambda>c. if 65 \<le> c \<and> c \<le> 90 then c + 32 else c) (str ''.MP4'')"
    by (rule shaped [THEN conjunct2, THEN conjunct2, THEN conjunct2, THEN conjunct2,
          THEN conjunct2, THEN conjunct1, THEN mp, OF a])
  also have "\<dots> = str ''.mp4''"
    by (simp add: str_def)
  finally have c4: "lower kelvin_lower (str ''.MP4'') = str ''.mp4''" .
  from c1 c2 c3 c4 show ?thesis
    by (intro conjI)
qed

text \<open>
  C10. A filename whose last path component has no dot after a character other than the
  dot has the empty extension, and classification fails with the unsupported-type error
  (for the empty extension). The component is a run of leading dots followed by a
  dot-free rest: \<open>video\<close> (no dot at all) and \<open>.mp4\<close> (where the leading dot belongs to the
  base name) are both of this shape.
\<close>

theorem get_file_type_no_extension:
  assumes "dir = [] \<or> last dir = 47"
    and "set dots \<subseteq> {46}"
    and "46 \<notin> set rest" and "47 \<notin> set rest"
  shows "snd (splitext (dir @ dots @ rest)) = []
     \<and> get_file_type U (dir @ dots @ rest) = Inl (UnsupportedType [])"
proof -
  from assms have "splitext (dir @ dots @ rest) = (dir @ dots @ rest, [])"
    by (rule splitext_no_ext)
  then show ?thesis
    by (simp add: get_file_type_def Let_def lower_Nil SUPPORTED_VIDEO_TYPES_def
        SUPPORTED_AUDIO_TYPES_def SUPPORTED_IMAGE_TYPES_def str_def)
qed

theorem get_file_type_no_extension_witness:
  "get_file_type kelvin_lower (str ''video'') = Inl (UnsupportedType [])
   \<and> get_file_type kelvin_lower (str ''.mp4'') = Inl (UnsupportedType [])
   \<and> snd (splitext (str ''.mp4'')) = []"
proof -
  have a: "[] = [] \<or> last [] = (47 :: nat)"
    by simp
  have b: "set [] \<subseteq> {46 :: nat}" "set [46] \<subseteq> {46 :: nat}"
    by simp_all
  have c: "46 \<notin> set (str ''video'')" "47 \<notin> set (str ''video'')"
      "46 \<notin> set (str ''mp4'')" "47 \<notin> set (str ''mp4'')"
    by (simp_all add: str_def)
  have d: "[] @ [] @ str ''video'' = str ''video''" "[] @ [46] @ str ''mp4'' = str ''.mp4''"
    by (simp_all add: str_def)
  from get_file_type_no_extension [OF a b(1) c(1,2), of kelvin_lower]
    get_file_type_no_extension [OF a b(2) c(3,4), of kelvin_lower]
  show ?thesis
    unfolding d by blast
qed

section \<open>The validator\<close>

text \<open>
  C9. An upload whose declared size exceeds the ceiling \<open>MAX_FILE_SIZE\<close> = 104857600
  bytes is rejected with the too-large error whatever its filename is: the size is
  compared before the filename is classified.
\<close>

theorem validate_file_too_large:
  "file_size f > MAX_FILE_SIZE \<Longrightarrow>
     validate_file U f = Inl TooLarge
     \<and> TooLarge = HTTPException 400 (str ''File too large. Maximum size is 100MB'')
     \<and> MAX_FILE_SIZE = 104857600"
  by (simp add: validate_file_def TooLarge_detail) (simp add: MAX_FILE_SIZE_def)

theorem validate_file_too_large_witness:
  "validate_file kelvin_lower
       \<lparr>filename = str ''movie.mp4'', file_size = 104857601, file_stream = []\<rparr> = Inl TooLarge
   \<and> validate_file kelvin_lower
       \<lparr>filename = str ''notes.txt'', file_size = 104857601, file_stream = []\<rparr> = Inl TooLarge"
proof -
  have h1: "file_size \<lparr>filename = str ''movie.mp4'', file_size = 104857601, file_stream = []\<rparr>
      > MAX_FILE_SIZE"
    by (simp add: MAX_FILE_SIZE_def)
  have h2: "file_size \<lparr>filename = str ''notes.txt'', file_size = 104857601, file_stream = []\<rparr>
      > MAX_FILE_SIZE"
    by (simp add: MAX_FILE_SIZE_def)
  from validate_file_too_large [OF h1, THEN conjunct1, of kelvin_lower]
    validate_file_too_large [OF h2, THEN conjunct1, of kelvin_lower]
  show ?thesis
    by (rule conjI)
qed

section \<open>Facts about tokens and allocated paths\<close>

lemma nibble_less: "unat ((w :: 128 word) AND 0xf) < 16"
proof -
  have "(w AND 0xf) \<le> 0xf" by (rule word_and_le1)
  then have "unat (w AND 0xf) \<le> unat (0xf :: 128 word)" by (simp add: word_le_nat_alt)
  then show ?thesis by simp
qed

lemma hexdigit_inj: "n < 16 \<Longrightarrow> m < 16 \<Longrightarrow> hexdigit n = hexdigit m \<Longrightarrow> n = m"
proof -
  assume a: "n < 16" "m < 16" "hexdigit n = hexdigit m"
  have "distinct (str ''0123456789abcdef'')"
    by (simp add: str_def)
  moreover have "length (str ''0123456789abcdef'') = 16"
    by (simp add: str_def)
  ultimately show "n = m"
    using a unfolding hexdigit_def by (simp add: nth_eq_iff_index_eq)
qed

lemma nibbles_eq:
  fixes u v :: "128 word"
  assumes "\<forall>i<32. drop_bit (4 * i) u AND 0xf = drop_bit (4 * i) v AND 0xf"
  shows "u = v"
proof (rule bit_word_eqI)
  fix n
  assume "n < LENGTH(128)"
  then have n: "n div 4 < 32"
    by simp
  have m: "n mod 4 < 4" "n mod 4 < 128"
    by simp_all
  have f: "(0xf :: 128 word) = mask 4"
    by (simp add: mask_eq_exp_minus_1)
  have "bit (drop_bit (4 * (n div 4)) u AND 0xf) (n mod 4) \<longleftrightarrow> bit u n"
    unfolding f using m by (simp add: bit_and_iff bit_mask_iff bit_drop_bit_eq)
  moreover have "bit (drop_bit (4 * (n div 4)) v AND 0xf) (n mod 4) \<longleftrightarrow> bit v n"
    unfolding f using m by (simp add: bit_and_iff bit_mask_iff bit_drop_bit_eq)
  ultimately show "bit u n \<longleftrightarrow> bit v n"
    using assms n by metis
qed

lemma hex32_inj: "hex32 u = hex32 v \<Longrightarrow> u = v"
proof (rule nibbles_eq, intro allI impI)
  fix i :: nat
  assume eq: "hex32 u = hex32 v" and i: "i < 32"
  from eq have "\<forall>j\<in>set (rev [0..<32]). hexdigit (unat (drop_bit (4 * j) u AND 0xf))
      = hexdigit (unat (drop_bit (4 * j) v AND 0xf))"
    unfolding hex32_def by (simp only: map_eq_conv)
  moreover from i have "i \<in> set (rev [0..<32])"
    by (simp only: set_rev set_upt atLeastLessThan_iff) simp
  ultimately have "hexdigit (unat (drop_bit (4 * i) u AND 0xf))
      = hexdigit (unat (drop_bit (4 * i) v AND 0xf))"
    by blast
  then have "unat (drop_bit (4 * i) u AND 0xf) = unat (drop_bit (4 * i) v AND 0xf)"
    by (rule hexdigit_inj [OF nibble_less nibble_less])
  then show "drop_bit (4 * i) u AND 0xf = drop_bit (4 * i) v AND 0xf"
    using word_unat_eq_iff by blast
qed

lemma set_bits_keep:
  fixes r a b c d :: "'a::len word"
  assumes "b AND a = b" and "d AND c = d"
  shows "((((r AND NOT a) OR b) AND NOT c) OR d) AND NOT (a OR c) = r AND NOT (a OR c)"
proof (rule bit_word_eqI)
  fix n
  assume "n < LENGTH('a)"
  have ba: "bit b n \<Longrightarrow> bit a n"
    using assms(1) by (metis bit_and_iff)
  have dc: "bit d n \<Longrightarrow> bit c n"
    using assms(2) by (metis bit_and_iff)
  show "bit (((((r AND NOT a) OR b) AND NOT c) OR d) AND NOT (a OR c)) n
      \<longleftrightarrow> bit (r AND NOT (a OR c)) n"
    using ba dc by (auto simp: bit_and_iff bit_or_iff bit_not_iff)
qed

lemma uuid4_keeps_random_bits:
  "uuid4 r AND NOT (push_bit 48 0xc000 OR push_bit 64 0xf000)
     = r AND NOT (push_bit 48 0xc000 OR push_bit 64 0xf000)"
proof -
  have "(push_bit 48 0x8000 :: 128 word) AND push_bit 48 0xc000 = push_bit 48 0x8000"
    by code_simp
  moreover have "(push_bit 76 4 :: 128 word) AND push_bit 64 0xf000 = push_bit 76 4"
    by code_simp
  ultimately show ?thesis
    unfolding uuid4_def by (rule set_bits_keep)
qed

lemma hexdigit_in: "n < 16 \<Longrightarrow> hexdigit n \<in> set (str ''0123456789abcdef'')"
  unfolding hexdigit_def by (rule nth_mem) (simp add: str_def)

lemma length_hex32: "length (hex32 u) = 32"
  by (simp add: hex32_def)

lemma set_hex32: "set (hex32 u) \<subseteq> set (str ''0123456789abcdef'')"
  unfolding hex32_def using hexdigit_in [OF nibble_less] by auto

lemma set_uuid_str: "set (uuid_str u) \<subseteq> set (str ''0123456789abcdef-'')"
proof -
  define H where "H = set (str ''0123456789abcdef-'')"
  have "set (str ''0123456789abcdef'') \<subseteq> H"
    unfolding H_def by (simp add: subset_iff str_def)
  with set_hex32 [of u] have hex: "set (hex32 u) \<subseteq> H"
    by (rule order_trans)
  have t: "set (take n (hex32 u)) \<subseteq> H" for n
    using set_take_subset [of n "hex32 u"] hex by (rule order_trans)
  have d: "set (drop n (hex32 u)) \<subseteq> H" for n
    using set_drop_subset [of n "hex32 u"] hex by (rule order_trans)
  have td: "set (take m (drop n (hex32 u))) \<subseteq> H" for m n
    using set_take_subset [of m "drop n (hex32 u)"] d by (rule order_trans)
  have dash: "set (str ''-'') \<subseteq> H"
    unfolding H_def by (simp add: str_def)
  have "set (uuid_str u) \<subseteq> H"
    unfolding uuid_str_def Let_def set_append
    by (intro Un_least t d td dash)
  then show ?thesis
    unfolding H_def .
qed

lemma length_uuid_str: "length (uuid_str u) = 36"
  by (simp add: uuid_str_def Let_def length_hex32 str_def)

lemma uuid_str_no_sep: "47 \<notin> set (uuid_str u)" "46 \<notin> set (uuid_str u)"
proof -
  have "47 \<notin> set (str ''0123456789abcdef-'')" "46 \<notin> set (str ''0123456789abcdef-'')"
    by (simp_all add: str_def)
  with set_uuid_str [of u] show "47 \<notin> set (uuid_str u)" "46 \<notin> set (uuid_str u)"
    by blast+
qed

lemma uuid_str_hd: "uuid_str u \<noteq> []" "hd (uuid_str u) \<noteq> 47"
proof -
  show ne: "uuid_str u \<noteq> []"
    using length_uuid_str [of u] by auto
  then have "hd (uuid_str u) \<in> set (uuid_str u)"
    by simp
  with uuid_str_no_sep(1) [of u] show "hd (uuid_str u) \<noteq> 47"
    by metis
qed

text \<open>The text of a token, with the hyphens taken out, is its 32 hexadecimal digits.\<close>

lemma uuid_str_digits: "filter (\<lambda>c. c \<noteq> 45) (uuid_str u) = hex32 u"
proof -
  let ?h = "hex32 u"
  have "45 \<notin> set (str ''0123456789abcdef'')"
    by (simp add: str_def)
  with set_hex32 [of u] have no: "\<forall>c\<in>set ?h. c \<noteq> 45"
    by blast
  have keep: "filter (\<lambda>c. c \<noteq> 45) xs = xs" if "set xs \<subseteq> set ?h" for xs
    using that no by (intro filter_True) blast
  have t: "filter (\<lambda>c. c \<noteq> 45) (take n ?h) = take n ?h" for n
    by (rule keep) (rule set_take_subset)
  have d: "filter (\<lambda>c. c \<noteq> 45) (drop n ?h) = drop n ?h" for n
    by (rule keep) (rule set_drop_subset)
  have td: "filter (\<lambda>c. c \<noteq> 45) (take m (drop n ?h)) = take m (drop n ?h)" for m n
    by (rule keep) (rule order_trans [OF set_take_subset set_drop_subset])
  have dash: "filter (\<lambda>c. c \<noteq> 45) (str ''-'') = []"
    by (simp add: str_def)
  have "filter (\<lambda>c. c \<noteq> 45) (uuid_str u)
      = take 8 ?h @ take 4 (drop 8 ?h) @ take 4 (drop 12 ?h) @ take 4 (drop 16 ?h) @ drop 20 ?h"
    unfolding uuid_str_def Let_def filter_append t d td dash by simp
  also have "\<dots> = take 8 ?h @ take 4 (drop 8 ?h) @ take 4 (drop 12 ?h) @ drop 16 ?h"
    using append_take_drop_id [of 4 "drop 16 ?h"] by simp
  also have "\<dots> = take 8 ?h @ take 4 (drop 8 ?h) @ drop 12 ?h"
    using append_take_drop_id [of 4 "drop 12 ?h"] by simp
  also have "\<dots> = take 8 ?h @ drop 8 ?h"
    using append_take_drop_id [of 4 "drop 8 ?h"] by simp
  also have "\<dots> = ?h"
    by (rule append_take_drop_id)
  finally show ?thesis .
qed

lemma uuid_str_inj: "uuid_str u = uuid_str v \<Longrightarrow> u = v"
proof -
  assume "uuid_str u = uuid_str v"
  then have "filter (\<lambda>c. c \<noteq> 45) (uuid_str u) = filter (\<lambda>c. c \<noteq> 45) (uuid_str v)"
    by simp
  then have "hex32 u = hex32 v"
    by (simp only: uuid_str_digits)
  then show "u = v"
    by (rule hex32_inj)
qed

lemma path_join_relative:
  "b \<noteq> [] \<Longrightarrow> hd b \<noteq> 47 \<Longrightarrow>
     path_join a b = (if a = [] \<or> last a = 47 then a else a @ [47]) @ b"
  by (simp add: path_join_def)

lemma unique_path_eq:
  "unique_path E w f =
     (if UPLOAD_DIR E = [] \<or> last (UPLOAD_DIR E) = 47 then UPLOAD_DIR E else UPLOAD_DIR E @ [47])
     @ uuid_str (uuid4 (urandom E (drawn w)))
     @ lower (unicode_lower E) (snd (splitext (filename f)))"
proof -
  let ?b = "uuid_str (uuid4 (urandom E (drawn w)))
      @ lower (unicode_lower E) (snd (splitext (filename f)))"
  have "?b \<noteq> []" "hd ?b \<noteq> 47"
    using uuid_str_hd [of "uuid4 (urandom E (drawn w))"] by simp_all
  then show ?thesis
    unfolding unique_path_def Let_def by (rule path_join_relative)
qed

text \<open>
  Two allocations under the same root give the same path only for the same extension and
  for random values that agree outside the six bits of variant and version.
\<close>

lemma unique_path_inj:
  assumes "unique_path E w f = unique_path E v g"
  shows "urandom E (drawn w) AND NOT (push_bit 48 0xc000 OR push_bit 64 0xf000)
       = urandom E (drawn v) AND NOT (push_bit 48 0xc000 OR push_bit 64 0xf000)"
    and "lower (unicode_lower E) (snd (splitext (filename f)))
       = lower (unicode_lower E) (snd (splitext (filename g)))"
proof -
  let ?t = "uuid_str (uuid4 (urandom E (drawn w)))"
  let ?s = "uuid_str (uuid4 (urandom E (drawn v)))"
  from assms have "?t @ lower (unicode_lower E) (snd (splitext (filename f)))
      = ?s @ lower (unicode_lower E) (snd (splitext (filename g)))"
    by (simp only: unique_path_eq same_append_eq)
  moreover have "length ?t = length ?s"
    by (simp only: length_uuid_str)
  ultimately have both: "?t = ?s
      \<and> lower (unicode_lower E) (snd (splitext (filename f)))
        = lower (unicode_lower E) (snd (splitext (filename g)))"
    using append_eq_append_conv by blast
  then have eq: "?t = ?s"
    and ext: "lower (unicode_lower E) (snd (splitext (filename f)))
       = lower (unicode_lower E) (snd (splitext (filename g)))"
    by blast+
  from eq have "uuid4 (urandom E (drawn w)) = uuid4 (urandom E (drawn v))"
    by (rule uuid_str_inj)
  then have "uuid4 (urandom E (drawn w)) AND NOT (push_bit 48 0xc000 OR push_bit 64 0xf000)
      = uuid4 (urandom E (drawn v)) AND NOT (push_bit 48 0xc000 OR push_bit 64 0xf000)"
    by simp
  then show "urandom E (drawn w) AND NOT (push_bit 48 0xc000 OR push_bit 64 0xf000)
       = urandom E (drawn v) AND NOT (push_bit 48 0xc000 OR push_bit 64 0xf000)"
    by (simp only: uuid4_keeps_random_bits)
  from ext show "lower (unicode_lower E) (snd (splitext (filename f)))
       = lower (unicode_lower E) (snd (splitext (filename g)))" .
qed

lemma validate_file_ok:
  "validate_file U f = Inr () \<Longrightarrow>
     file_size f \<le> MAX_FILE_SIZE
     \<and> (\<exists>kind. get_file_type U (filename f) = Inr kind \<and> kind \<in> {''video'', ''audio'', ''image''})"
  using get_file_type_cases [of U "filename f"]
  by (auto simp: validate_file_def split: if_splits sum.splits)

lemma validate_file_error:
  "validate_file U f = Inl e \<Longrightarrow>
     e = TooLarge \<or> e = UnsupportedType (lower U (snd (splitext (filename f))))"
  using get_file_type_cases [of U "filename f"]
  by (auto simp: validate_file_def split: if_splits sum.splits)

lemma upload_file_to_storage_success:
  assumes "upload_file_to_storage E w f = (Inr (file_path, file_type, metadata), w')"
  shows "validate_file (unicode_lower E) f = Inr ()"
    and "copy_outcome E (fs w) (unique_path E w f) (file_stream f) = Complete"
    and "file_path = unique_path E w f"
    and "get_file_type (unicode_lower E) (filename f) = Inr file_type"
    and "w' = w\<lparr>drawn := drawn w + 1,
                 fs := (fs w)(unique_path E w f \<mapsto> Uploaded (file_stream f))\<rparr>"
  using assms
  by (auto simp: upload_file_to_storage_def Let_def split: sum.splits write_outcome.splits)

lemma supported_no_sep:
  "ext \<in> SUPPORTED_VIDEO_TYPES \<union> SUPPORTED_AUDIO_TYPES \<union> SUPPORTED_IMAGE_TYPES
     \<Longrightarrow> 47 \<notin> set ext"
  unfolding SUPPORTED_VIDEO_TYPES_def SUPPORTED_AUDIO_TYPES_def SUPPORTED_IMAGE_TYPES_def
  by (auto simp: str_def)

lemma get_file_type_supported:
  "get_file_type U fname = Inr kind \<Longrightarrow>
     lower U (snd (splitext fname))
       \<in> SUPPORTED_VIDEO_TYPES \<union> SUPPORTED_AUDIO_TYPES \<union> SUPPORTED_IMAGE_TYPES"
  by (auto simp: get_file_type_def Let_def split: if_splits)

section \<open>The orchestration\<close>

text \<open>
  C7. An upload that validation rejects, with the too-large error or with the
  unsupported-type error, is rejected before anything else happens: the call returns
  that error and the state it was given, with no file created and no token drawn,
  and so does the ingestion built on it.
\<close>

theorem validation_before_storage:
  "validate_file (unicode_lower E) f = Inl e \<Longrightarrow>
     upload_file_to_storage E w f = (Inl e, w) \<and> ingest E w f = (Inl e, w)
     \<and> (e = TooLarge
        \<or> e = UnsupportedType (lower (unicode_lower E) (snd (splitext (filename f)))))"
  by (simp add: upload_file_to_storage_def ingest_def validate_file_error)

theorem validation_before_storage_witness:
  "upload_file_to_storage example_env empty_world
       \<lparr>filename = str ''notes.txt'', file_size = 10, file_stream = ''0123456789''\<rparr>
     = (Inl (UnsupportedType (str ''.txt'')), empty_world)
   \<and> upload_file_to_storage example_env empty_world
       \<lparr>filename = str ''movie.mp4'', file_size = 104857601, file_stream = []\<rparr>
     = (Inl TooLarge, empty_world)"
proof -
  have h1: "validate_file (unicode_lower example_env)
      \<lparr>filename = str ''notes.txt'', file_size = 10, file_stream = ''0123456789''\<rparr>
      = Inl (UnsupportedType (str ''.txt''))"
    by code_simp
  have h2: "validate_file (unicode_lower example_env)
      \<lparr>filename = str ''movie.mp4'', file_size = 104857601, file_stream = []\<rparr>
      = Inl TooLarge"
    by code_simp
  from validation_before_storage [OF h1, of empty_world, THEN conjunct1]
    validation_before_storage [OF h2, of empty_world, THEN conjunct1]
  show ?thesis
    by (rule conjI)
qed

text \<open>
  C6. When an upload is stored, the path of the original is the configured root, a
  separator unless the root is empty or ends with one, the text of a token, and the
  lower-cased extension of the declared filename, which is one of the fifteen supported
  extensions. The token is the UUID built from the random value drawn at this call: 36
  characters, hexadecimal digits and hyphens. Token and extension hold no separator, so
  the file lies directly in the root, and the next draw uses the next random value.
  Nothing else of the filename reaches the path: two filenames with the same lower-cased
  extension are given the same path in the same state. And the token carries the random
  value: an allocation in any state that gives this same path has the same extension and
  a random value that agrees with this one on the 122 bits outside variant and version.
\<close>

theorem stored_path_is_token_and_extension:
  assumes "upload_file_to_storage E w f = (Inr (file_path, file_type, metadata), w')"
  shows "file_path =
       (if UPLOAD_DIR E = [] \<or> last (UPLOAD_DIR E) = 47 then UPLOAD_DIR E
        else UPLOAD_DIR E @ [47])
       @ uuid_str (uuid4 (urandom E (drawn w)))
       @ lower (unicode_lower E) (snd (splitext (filename f)))
     \<and> lower (unicode_lower E) (snd (splitext (filename f)))
         \<in> SUPPORTED_VIDEO_TYPES \<union> SUPPORTED_AUDIO_TYPES \<union> SUPPORTED_IMAGE_TYPES
     \<and> 47 \<notin> set (uuid_str (uuid4 (urandom E (drawn w)))
                  @ lower (unicode_lower E) (snd (splitext (filename f))))
     \<and> length (uuid_str (uuid4 (urandom E (drawn w)))) = 36
     \<and> set (uuid_str (uuid4 (urandom E (drawn w)))) \<subseteq> set (str ''0123456789abcdef-'')
     \<and> drawn w' = drawn w + 1
     \<and> fs w' file_path = Some (Uploaded (file_stream f))
     \<and> (\<forall>g p t m v. upload_file_to_storage E w g = (Inr (p, t, m), v)
            \<and> lower (unicode_lower E) (snd (splitext (filename g)))
              = lower (unicode_lower E) (snd (splitext (filename f)))
          \<longrightarrow> p = file_path)
     \<and> (\<forall>w2 g p t m v. upload_file_to_storage E w2 g = (Inr (p, t, m), v) \<and> p = file_path
          \<longrightarrow> urandom E (drawn w2) AND NOT (push_bit 48 0xc000 OR push_bit 64 0xf000)
                = urandom E (drawn w) AND NOT (push_bit 48 0xc000 OR push_bit 64 0xf000)
              \<and> lower (unicode_lower E) (snd (splitext (filename g)))
                = lower (unicode_lower E) (snd (splitext (filename f))))"
proof -
  note s = upload_file_to_storage_success [OF assms]
  have path: "file_path =
       (if UPLOAD_DIR E = [] \<or> last (UPLOAD_DIR E) = 47 then UPLOAD_DIR E
        else UPLOAD_DIR E @ [47])
       @ uuid_str (uuid4 (urandom E (drawn w)))
       @ lower (unicode_lower E) (snd (splitext (filename f)))"
    using s(3) by (simp only: unique_path_eq)
  have ext: "lower (unicode_lower E) (snd (splitext (filename f)))
         \<in> SUPPORTED_VIDEO_TYPES \<union> SUPPORTED_AUDIO_TYPES \<union> SUPPORTED_IMAGE_TYPES"
    using s(4) by (rule get_file_type_supported)
  have nosep: "47 \<notin> set (uuid_str (uuid4 (urandom E (drawn w)))
        @ lower (unicode_lower E) (snd (splitext (filename f))))"
    using supported_no_sep [OF ext] uuid_str_no_sep(1) [of "uuid4 (urandom E (drawn w))"]
    by simp
  have token: "length (uuid_str (uuid4 (urandom E (drawn w)))) = 36"
      "set (uuid_str (uuid4 (urandom E (drawn w)))) \<subseteq> set (str ''0123456789abcdef-'')"
    by (rule length_uuid_str, rule set_uuid_str)
  have st: "drawn w' = drawn w + 1" "fs w' file_path = Some (Uploaded (file_stream f))"
    using s(3,5) by simp_all
  have same: "\<forall>g p t m v. upload_file_to_storage E w g = (Inr (p, t, m), v)
            \<and> lower (unicode_lower E) (snd (splitext (filename g)))
              = lower (unicode_lower E) (snd (splitext (filename f)))
          \<longrightarrow> p = file_path"
  proof (intro allI impI, elim conjE)
    fix g p t m v
    assume g: "upload_file_to_storage E w g = (Inr (p, t, m), v)"
      and e: "lower (unicode_lower E) (snd (splitext (filename g)))
        = lower (unicode_lower E) (snd (splitext (filename f)))"
    from upload_file_to_storage_success(3) [OF g] have "p = unique_path E w g" .
    also have "\<dots> = unique_path E w f"
      using e by (simp add: unique_path_def Let_def)
    finally show "p = file_path"
      using s(3) by simp
  qed
  have random: "\<forall>w2 g p t m v. upload_file_to_storage E w2 g = (Inr (p, t, m), v) \<and> p = file_path
          \<longrightarrow> urandom E (drawn w2) AND NOT (push_bit 48 0xc000 OR push_bit 64 0xf000)
                = urandom E (drawn w) AND NOT (push_bit 48 0xc000 OR push_bit 64 0xf000)
              \<and> lower (unicode_lower E) (snd (splitext (filename g)))
                = lower (unicode_lower E) (snd (splitext (filename f)))"
  proof (intro allI impI, elim conjE)
    fix w2 g p t m v
    assume g: "upload_file_to_storage E w2 g = (Inr (p, t, m), v)" and p: "p = file_path"
    from upload_file_to_storage_success(3) [OF g] p s(3)
    have "unique_path E w2 g = unique_path E w f"
      by simp
    from unique_path_inj [OF this]
    show "urandom E (drawn w2) AND NOT (push_bit 48 0xc000 OR push_bit 64 0xf000)
                = urandom E (drawn w) AND NOT (push_bit 48 0xc000 OR push_bit 64 0xf000)
              \<and> lower (unicode_lower E) (snd (splitext (filename g)))
                = lower (unicode_lower E) (snd (splitext (filename f)))"
      by (rule conjI)
  qed
  from path ext nosep token st same random show ?thesis
    by (intro conjI)
qed

theorem stored_path_is_token_and_extension_witness:
  "fst (upload_file_to_storage example_env empty_world crafted_upload)
     = Inr (str ''./uploads/01234567-89ab-4def-8123-456789abcdef.mp4'', ''video'', [])
   \<and> str ''./uploads/01234567-89ab-4def-8123-456789abcdef.mp4''
     = (if UPLOAD_DIR example_env = [] \<or> last (UPLOAD_DIR example_env) = 47
        then UPLOAD_DIR example_env else UPLOAD_DIR example_env @ [47])
       @ uuid_str (uuid4 (urandom example_env (drawn empty_world)))
       @ lower (unicode_lower example_env) (snd (splitext (filename crafted_upload)))
   \<and> fst (upload_file_to_storage example_env empty_world kelvin_upload)
     = Inr (str ''./uploads/01234567-89ab-4def-8123-456789abcdef.mkv'', ''video'', [])
   \<and> str ''./uploads/01234567-89ab-4def-8123-456789abcdef.mkv''
     = (if UPLOAD_DIR example_env = [] \<or> last (UPLOAD_DIR example_env) = 47
        then UPLOAD_DIR example_env else UPLOAD_DIR example_env @ [47])
       @ uuid_str (uuid4 (urandom example_env (drawn empty_world)))
       @ lower (unicode_lower example_env) (snd (splitext (filename kelvin_upload)))"
proof -
  have res: "fst (upload_file_to_storage example_env empty_world crafted_upload)
     = Inr (str ''./uploads/01234567-89ab-4def-8123-456789abcdef.mp4'', ''video'', [])"
    by code_simp
  then have run: "upload_file_to_storage example_env empty_world crafted_upload
     = (Inr (str ''./uploads/01234567-89ab-4def-8123-456789abcdef.mp4'', ''video'', []),
        snd (upload_file_to_storage example_env empty_world crafted_upload))"
    by (simp add: prod_eq_iff)
  have res': "fst (upload_file_to_storage example_env empty_world kelvin_upload)
     = Inr (str ''./uploads/01234567-89ab-4def-8123-456789abcdef.mkv'', ''video'', [])"
    by code_simp
  then have run': "upload_file_to_storage example_env empty_world kelvin_upload
     = (Inr (str ''./uploads/01234567-89ab-4def-8123-456789abcdef.mkv'', ''video'', []),
        snd (upload_file_to_storage example_env empty_world kelvin_upload))"
    by (simp add: prod_eq_iff)
  from res stored_path_is_token_and_extension [OF run, THEN conjunct1]
    res' stored_path_is_token_and_extension [OF run', THEN conjunct1]
  show ?thesis
    by (intro conjI)
qed

text \<open>
  C2, as the code has it. When the copy of a validated upload fails after \<open>n\<close> bytes,
  the \<open>OSError\<close> of the write leaves \<open>upload_file_to_storage\<close> unchanged (there is no
  storage-write error of the pipeline's own), and the allocated path keeps the \<open>n\<close>
  bytes written so far: the code removes nothing.
\<close>

theorem copy_failure_leaves_partial_file:
  assumes "validate_file (unicode_lower E) f = Inr ()"
    and "copy_outcome E (fs w) (unique_path E w f) (file_stream f) = Fails_after n"
  shows "upload_file_to_storage E w f =
       (Inl (PyException ''OSError''),
        w\<lparr>drawn := drawn w + 1,
          fs := (fs w)(unique_path E w f \<mapsto> Uploaded (take n (file_stream f)))\<rparr>)
     \<and> ingest E w f =
       (Inl (PyException ''OSError''),
        w\<lparr>drawn := drawn w + 1,
          fs := (fs w)(unique_path E w f \<mapsto> Uploaded (take n (file_stream f)))\<rparr>)"
proof -
  from assms have "upload_file_to_storage E w f =
       (Inl (PyException ''OSError''),
        w\<lparr>drawn := drawn w + 1,
          fs := (fs w)(unique_path E w f \<mapsto> Uploaded (take n (file_stream f)))\<rparr>)"
    by (simp add: upload_file_to_storage_def Let_def)
  then show ?thesis
    by (simp add: ingest_def)
qed

theorem copy_failure_leaves_partial_file_witness:
  "fst (upload_file_to_storage failing_disk_env empty_world crafted_upload)
     = Inl (PyException ''OSError'')
   \<and> fs (snd (upload_file_to_storage failing_disk_env empty_world crafted_upload))
        (unique_path failing_disk_env empty_world crafted_upload)
     = Some (Uploaded (take 3 (file_stream crafted_upload)))"
proof -
  have h1: "validate_file (unicode_lower failing_disk_env) crafted_upload = Inr ()"
    by code_simp
  have h2: "copy_outcome failing_disk_env (fs empty_world)
      (unique_path failing_disk_env empty_world crafted_upload) (file_stream crafted_upload)
      = Fails_after 3"
    by (simp add: failing_disk_env_def)
  from copy_failure_leaves_partial_file [OF h1 h2, THEN conjunct1]
  show ?thesis
    by simp
qed

text \<open>
  C2, as the specification states it, fails: after a copy that breaks at the third byte
  the call raises \<open>OSError\<close> and the upload directory, empty before, holds the
  three-byte file.
\<close>

theorem partial_file_removed_counterexample:
  "fst (upload_file_to_storage failing_disk_env empty_world crafted_upload)
     = Inl (PyException ''OSError'')
   \<and> fs empty_world (str ''./uploads/01234567-89ab-4def-8123-456789abcdef.mp4'') = None
   \<and> fs (snd (upload_file_to_storage failing_disk_env empty_world crafted_upload))
        (str ''./uploads/01234567-89ab-4def-8123-456789abcdef.mp4'')
     = Some (Uploaded ''abc'')"
  by code_simp

text \<open>
  C3. A validated upload whose bytes reach the disk is always ingested: the ingestion
  returns a record whatever the probe, the decoder and the frame extraction do. When
  the stored file can be neither probed nor decoded and no frame can be extracted, the
  record has the empty metadata and no thumbnail, and the only file written is the
  original.
\<close>

theorem unreadable_media_still_ingested:
  assumes "validate_file (unicode_lower E) f = Inr ()"
    and "copy_outcome E (fs w) (unique_path E w f) (file_stream f) = Complete"
  shows "(\<exists>r v. ingest E w f = (Inr r, v))
     \<and> ((\<exists>e. ffmpeg_probe E ((fs w)(unique_path E w f \<mapsto> Uploaded (file_stream f)))
                (unique_path E w f) = Inl e)
        \<and> (\<exists>e. image_open E ((fs w)(unique_path E w f \<mapsto> Uploaded (file_stream f)))
                (unique_path E w f) = Inl e)
        \<and> (\<exists>e. ffmpeg_run E ((fs w)(unique_path E w f \<mapsto> Uploaded (file_stream f)))
                (unique_path E w f) = Ffmpeg_error e)
        \<longrightarrow> (\<exists>kind. get_file_type (unicode_lower E) (filename f) = Inr kind
              \<and> ingest E w f =
                 (Inr (unique_path E w f, kind, [], None),
                  w\<lparr>drawn := drawn w + 2,
                    fs := (fs w)(unique_path E w f \<mapsto> Uploaded (file_stream f))\<rparr>)))"
proof -
  from assms(1) obtain kind where kind: "get_file_type (unicode_lower E) (filename f) = Inr kind"
      "kind \<in> {''video'', ''audio'', ''image''}"
    using validate_file_ok by blast
  let ?p = "unique_path E w f"
  let ?fs = "(fs w)(?p \<mapsto> Uploaded (file_stream f))"
  let ?md = "if kind = ''video'' then extract_video_metadata E (ffmpeg_probe E ?fs ?p)
       else if kind = ''audio'' then extract_audio_metadata E (ffmpeg_probe E ?fs ?p)
       else if kind = ''image'' then extract_image_metadata (image_open E ?fs ?p)
       else []"
  have up: "upload_file_to_storage E w f =
      (Inr (?p, kind, ?md), w\<lparr>drawn := drawn w + 1, fs := ?fs\<rparr>)"
    using assms kind(1) by (simp add: upload_file_to_storage_def Let_def)
  have total: "\<exists>r v. ingest E w f = (Inr r, v)"
    unfolding ingest_def up by (simp split: prod.splits)
  have degraded: "\<exists>kind. get_file_type (unicode_lower E) (filename f) = Inr kind
              \<and> ingest E w f =
                 (Inr (?p, kind, [], None), w\<lparr>drawn := drawn w + 2, fs := ?fs\<rparr>)"
    if probe: "\<exists>e. ffmpeg_probe E ?fs ?p = Inl e"
      and decode: "\<exists>e. image_open E ?fs ?p = Inl e"
      and frame: "\<exists>e. ffmpeg_run E ?fs ?p = Ffmpeg_error e"
  proof -
    from probe obtain e1 where e1: "ffmpeg_probe E ?fs ?p = Inl e1" by blast
    from decode obtain e2 where e2: "image_open E ?fs ?p = Inl e2" by blast
    from frame obtain e3 where e3: "ffmpeg_run E ?fs ?p = Ffmpeg_error e3" by blast
    have md: "?md = []"
      using e1 e2
      by (simp add: extract_video_metadata_def video_try_def extract_audio_metadata_def
          audio_try_def extract_image_metadata_def exn_bind_def)
    have th: "generate_thumbnail E (w\<lparr>drawn := drawn w + 1, fs := ?fs\<rparr>) ?p kind
        = (None, w\<lparr>drawn := drawn w + 2, fs := ?fs\<rparr>)"
      using e2 e3 by (simp add: generate_thumbnail_def Let_def exn_bind_def)
    have "ingest E w f = (Inr (?p, kind, [], None), w\<lparr>drawn := drawn w + 2, fs := ?fs\<rparr>)"
      unfolding ingest_def up md using th by simp
    with kind(1) show ?thesis by blast
  qed
  from total degraded show ?thesis
    by blast
qed

theorem unreadable_media_still_ingested_witness:
  "ingest example_env empty_world crafted_upload =
     (Inr (unique_path example_env empty_world crafted_upload, ''video'', [], None),
      empty_world\<lparr>drawn := drawn empty_world + 2,
        fs := (fs empty_world)(unique_path example_env empty_world crafted_upload
                 \<mapsto> Uploaded (file_stream crafted_upload))\<rparr>)"
proof -
  have h1: "validate_file (unicode_lower example_env) crafted_upload = Inr ()"
    by code_simp
  have h2: "copy_outcome example_env (fs empty_world)
      (unique_path example_env empty_world crafted_upload) (file_stream crafted_upload) = Complete"
    by (simp add: example_env_def)
  have kind: "get_file_type (unicode_lower example_env) (filename crafted_upload) = Inr ''video''"
    by code_simp
  have tools: "(\<exists>e. ffmpeg_probe example_env ((fs empty_world)(unique_path example_env empty_world crafted_upload \<mapsto> Uploaded (file_stream crafted_upload)))
                (unique_path example_env empty_world crafted_upload) = Inl e)
        \<and> (\<exists>e. image_open example_env ((fs empty_world)(unique_path example_env empty_world crafted_upload \<mapsto> Uploaded (file_stream crafted_upload)))
                (unique_path example_env empty_world crafted_upload) = Inl e)
        \<and> (\<exists>e. ffmpeg_run example_env ((fs empty_world)(unique_path example_env empty_world crafted_upload \<mapsto> Uploaded (file_stream crafted_upload)))
                (unique_path example_env empty_world crafted_upload) = Ffmpeg_error e)"
    by (simp add: example_env_def)
  from unreadable_media_still_ingested [OF h1 h2, THEN conjunct2, THEN mp, OF tools] kind
  show ?thesis
    by auto
qed

section \<open>Facts about metadata extraction\<close>


lemma video_metadata_found:
  assumes "py_getitem probe ''streams'' = Inr streams" and "py_iter streams = Inr ss"
    and "first_stream ss ''video'' = Inr vs" and "truthy vs"
  shows "extract_video_metadata E (Inr probe) =
     (case exn_bind (py_get vs ''width'' (PInt 0)) (py_int E) of Inl e \<Rightarrow> [] | Inr width \<Rightarrow>
      case exn_bind (py_get vs ''height'' (PInt 0)) (py_int E) of Inl e \<Rightarrow> [] | Inr height \<Rightarrow>
      case exn_bind (exn_bind (py_getitem probe ''format'') (\<lambda>fmt. py_get fmt ''duration'' (PInt 0)))
             (py_float E) of Inl e \<Rightarrow> [] | Inr duration \<Rightarrow>
      case exn_bind (py_get vs ''r_frame_rate'' (PStr ''30/1'')) (py_eval E) of Inl e \<Rightarrow> [] | Inr fps \<Rightarrow>
      case py_get vs ''codec_name'' (PStr ''unknown'') of Inl e \<Rightarrow> [] | Inr codec \<Rightarrow>
        [(''width'', width), (''height'', height), (''duration'', duration),
         (''fps'', fps), (''codec'', codec)])"
  using assms
  by (simp add: extract_video_metadata_def video_try_def exn_bind_def split: sum.splits)

lemma audio_metadata_found:
  assumes "py_getitem probe ''streams'' = Inr streams" and "py_iter streams = Inr ss"
    and "first_stream ss ''audio'' = Inr as" and "truthy as"
  shows "extract_audio_metadata E (Inr probe) =
     (case exn_bind (exn_bind (py_getitem probe ''format'') (\<lambda>fmt. py_get fmt ''duration'' (PInt 0)))
             (py_float E) of Inl e \<Rightarrow> [] | Inr duration \<Rightarrow>
      case py_get as ''codec_name'' (PStr ''unknown'') of Inl e \<Rightarrow> [] | Inr codec \<Rightarrow>
      case exn_bind (py_get as ''sample_rate'' (PInt 0)) (py_int E) of Inl e \<Rightarrow> [] | Inr sample_rate \<Rightarrow>
      case exn_bind (py_get as ''channels'' (PInt 0)) (py_int E) of Inl e \<Rightarrow> [] | Inr channels \<Rightarrow>
        [(''duration'', duration), (''codec'', codec),
         (''sample_rate'', sample_rate), (''channels'', channels)])"
  using assms
  by (simp add: extract_audio_metadata_def audio_try_def exn_bind_def split: sum.splits)

text \<open>
  C4, as the code has it. Take a probe report whose stream of the kind is found and
  whose container summary is present. If every numeric conversion succeeds
  (\<open>int\<close> of width and height, \<open>float\<close> of the duration and \<open>eval\<close> of the frame rate for
  video; \<open>float\<close> of the duration, \<open>int\<close> of the sample rate and of the channel count
  for audio), the dictionary with all the fields is returned. If any one of them raises,
  the result is the empty dictionary: the fields that did parse are discarded with it.
  No exception leaves the extraction either way.
\<close>

theorem parse_failure_discards_all_fields:
  assumes "py_getitem probe ''streams'' = Inr streams" and "py_iter streams = Inr ss"
    and "py_getitem probe ''format'' = Inr fmt" and "py_get fmt ''duration'' (PInt 0) = Inr d0"
  shows "(first_stream ss ''video'' = Inr vs \<and> truthy vs
          \<and> py_get vs ''width'' (PInt 0) = Inr w0 \<and> py_get vs ''height'' (PInt 0) = Inr h0
          \<and> py_get vs ''r_frame_rate'' (PStr ''30/1'') = Inr r0
          \<and> py_get vs ''codec_name'' (PStr ''unknown'') = Inr c0
        \<longrightarrow> extract_video_metadata E (Inr probe) =
             (case (py_int E w0, py_int E h0, py_float E d0, py_eval E r0) of
                (Inr width, Inr height, Inr duration, Inr fps) \<Rightarrow>
                  [(''width'', width), (''height'', height), (''duration'', duration),
                   (''fps'', fps), (''codec'', c0)]
              | _ \<Rightarrow> []))
     \<and> (first_stream ss ''audio'' = Inr as \<and> truthy as
          \<and> py_get as ''codec_name'' (PStr ''unknown'') = Inr c1
          \<and> py_get as ''sample_rate'' (PInt 0) = Inr s0
          \<and> py_get as ''channels'' (PInt 0) = Inr n0
        \<longrightarrow> extract_audio_metadata E (Inr probe) =
             (case (py_float E d0, py_int E s0, py_int E n0) of
                (Inr duration, Inr sample_rate, Inr channels) \<Rightarrow>
                  [(''duration'', duration), (''codec'', c1),
                   (''sample_rate'', sample_rate), (''channels'', channels)]
              | _ \<Rightarrow> []))"
proof (intro conjI impI; elim conjE)
  assume "first_stream ss ''video'' = Inr vs" and "truthy vs"
    and "py_get vs ''width'' (PInt 0) = Inr w0" and "py_get vs ''height'' (PInt 0) = Inr h0"
    and "py_get vs ''r_frame_rate'' (PStr ''30/1'') = Inr r0"
    and "py_get vs ''codec_name'' (PStr ''unknown'') = Inr c0"
  with assms show "extract_video_metadata E (Inr probe) =
             (case (py_int E w0, py_int E h0, py_float E d0, py_eval E r0) of
                (Inr width, Inr height, Inr duration, Inr fps) \<Rightarrow>
                  [(''width'', width), (''height'', height), (''duration'', duration),
                   (''fps'', fps), (''codec'', c0)]
              | _ \<Rightarrow> [])"
    by (simp add: video_metadata_found [where E = E] exn_bind_def split: sum.splits)
next
  assume "first_stream ss ''audio'' = Inr as" and "truthy as"
    and "py_get as ''codec_name'' (PStr ''unknown'') = Inr c1"
    and "py_get as ''sample_rate'' (PInt 0) = Inr s0"
    and "py_get as ''channels'' (PInt 0) = Inr n0"
  with assms show "extract_audio_metadata E (Inr probe) =
             (case (py_float E d0, py_int E s0, py_int E n0) of
                (Inr duration, Inr sample_rate, Inr channels) \<Rightarrow>
                  [(''duration'', duration), (''codec'', c1),
                   (''sample_rate'', sample_rate), (''channels'', channels)]
              | _ \<Rightarrow> [])"
    by (simp add: audio_metadata_found [where E = E] exn_bind_def split: sum.splits)
qed

theorem parse_failure_discards_all_fields_witness:
  "extract_video_metadata example_env (Inr (video_probe ''30000/1001'')) =
     [(''width'', PInt 1920), (''height'', PInt 1080), (''duration'', PFloat (25 / 2)),
      (''fps'', PFloat (30000 / 1001)), (''codec'', PStr ''h264'')]
   \<and> extract_audio_metadata example_env (Inr (audio_probe ''N/A'')) = []"
proof -
  have v1: "py_getitem (video_probe ''30000/1001'') ''streams'' = Inr (PList [video_stream ''30000/1001''])"
    by code_simp
  have v2: "py_iter (PList [video_stream ''30000/1001'']) = Inr [video_stream ''30000/1001'']"
    by simp
  have v3: "py_getitem (video_probe ''30000/1001'') ''format'' = Inr probe_format"
    by code_simp
  have a1: "py_getitem (audio_probe ''N/A'') ''streams'' = Inr (PList [audio_stream ''N/A''])"
    by code_simp
  have a2: "py_iter (PList [audio_stream ''N/A'']) = Inr [audio_stream ''N/A'']"
    by simp
  have a3: "py_getitem (audio_probe ''N/A'') ''format'' = Inr probe_format"
    by code_simp
  have d: "py_get probe_format ''duration'' (PInt 0) = Inr (PStr ''12.5'')"
    by code_simp
  have v: "first_stream [video_stream ''30000/1001''] ''video'' = Inr (video_stream ''30000/1001'')
      \<and> truthy (video_stream ''30000/1001'')
      \<and> py_get (video_stream ''30000/1001'') ''width'' (PInt 0) = Inr (PInt 1920)
      \<and> py_get (video_stream ''30000/1001'') ''height'' (PInt 0) = Inr (PInt 1080)
      \<and> py_get (video_stream ''30000/1001'') ''r_frame_rate'' (PStr ''30/1'') = Inr (PStr ''30000/1001'')
      \<and> py_get (video_stream ''30000/1001'') ''codec_name'' (PStr ''unknown'') = Inr (PStr ''h264'')"
    by code_simp
  have a: "first_stream [audio_stream ''N/A''] ''audio'' = Inr (audio_stream ''N/A'')
      \<and> truthy (audio_stream ''N/A'')
      \<and> py_get (audio_stream ''N/A'') ''codec_name'' (PStr ''unknown'') = Inr (PStr ''mp3'')
      \<and> py_get (audio_stream ''N/A'') ''sample_rate'' (PInt 0) = Inr (PStr ''N/A'')
      \<and> py_get (audio_stream ''N/A'') ''channels'' (PInt 0) = Inr (PInt 2)"
    by code_simp
  have rv: "(case (py_int example_env (PInt 1920), py_int example_env (PInt 1080),
                  py_float example_env (PStr ''12.5''), py_eval example_env (PStr ''30000/1001'')) of
                (Inr width, Inr height, Inr duration, Inr fps) \<Rightarrow>
                  [(''width'', width), (''height'', height), (''duration'', duration),
                   (''fps'', fps), (''codec'', PStr ''h264'')]
              | _ \<Rightarrow> [])
      = [(''width'', PInt 1920), (''height'', PInt 1080), (''duration'', PFloat (25 / 2)),
         (''fps'', PFloat (30000 / 1001)), (''codec'', PStr ''h264'')]"
    by code_simp
  have ra: "(case (py_float example_env (PStr ''12.5''), py_int example_env (PStr ''N/A''),
                  py_int example_env (PInt 2)) of
                (Inr duration, Inr sample_rate, Inr channels) \<Rightarrow>
                  [(''duration'', duration), (''codec'', PStr ''mp3''),
                   (''sample_rate'', sample_rate), (''channels'', channels)]
              | _ \<Rightarrow> [])
      = []"
    by code_simp
  have "extract_video_metadata example_env (Inr (video_probe ''30000/1001'')) =
     [(''width'', PInt 1920), (''height'', PInt 1080), (''duration'', PFloat (25 / 2)),
      (''fps'', PFloat (30000 / 1001)), (''codec'', PStr ''h264'')]"
    using parse_failure_discards_all_fields [OF v1 v2 v3 d, THEN conjunct1, THEN mp, OF v,
        of example_env] rv
    by (rule trans)
  moreover have "extract_audio_metadata example_env (Inr (audio_probe ''N/A'')) = []"
    using parse_failure_discards_all_fields [OF a1 a2 a3 d, THEN conjunct2, THEN mp, OF a,
        of example_env] ra
    by (rule trans)
  ultimately show ?thesis
    by (rule conjI)
qed

text \<open>
  C4, as the specification states it, fails: with a sample rate that is not a number,
  the duration and the channel count parse and yet are not in the result, which is
  empty; with a numeric sample rate the same duration is returned.
\<close>

theorem failed_field_treated_as_absent_counterexample:
  "py_float example_env (PStr ''12.5'') = Inr (PFloat (25 / 2))
   \<and> py_int example_env (PInt 2) = Inr (PInt 2)
   \<and> py_int example_env (PStr ''N/A'') = Inl (PyException ''ValueError'')
   \<and> map_of (extract_audio_metadata example_env (Inr (audio_probe ''N/A''))) ''duration'' = None
   \<and> map_of (extract_audio_metadata example_env (Inr (audio_probe ''N/A''))) ''channels'' = None
   \<and> map_of (extract_audio_metadata example_env (Inr (audio_probe ''44100''))) ''duration''
       = Some (PFloat (25 / 2))"
  by code_simp




section \<open>Facts about the thumbnail size\<close>











end
